theory Spec2Isabelle
  imports Main "HOL-Library.Monad_Syntax"
begin

section \<open>Data model (main.py, lines 10-32)\<close>

text \<open>
  Paths are POSIX strings. \<^verbatim>\<open>Path("./downloads") / "audio.mp3"\<close> prints as
  \<^verbatim>\<open>downloads/audio.mp3\<close>: pathlib drops the leading \<^verbatim>\<open>./\<close>.
\<close>

type_synonym path = string

text \<open>
  Python values as they occur in a JSON request body and in the dictionary returned by
  \<^verbatim>\<open>extract_info\<close>. \<open>VFloat m e\<close> is the finite float \<open>m * 2 ^ e\<close> (\<open>m / 2 ^ (- e)\<close> for a
  negative \<open>e\<close>).
\<close>

datatype pyval =
  VNone
  | VBool bool
  | VStr string
  | VInt int
  | VFloat int int
  | VList "pyval list"
  | VDict "(string \<times> pyval) list"

record MediaRequest =
  videoUrl :: string
  format :: string

record VideoMetadata =
  title :: string
  author :: string
  length_seconds :: int
  view_count :: int
  upload_date :: string
  likes :: int
  description :: string
  thumbnails :: "pyval list"

text \<open>
  Exceptions. Every exception the handlers meet is a subclass of \<^verbatim>\<open>Exception\<close>:
  \<open>HTTPException status detail\<close>, \<open>KeyError key\<close> from a dictionary subscript, and
  \<open>Exception msg\<close> for any other one, where \<open>msg\<close> is what \<^verbatim>\<open>str(e)\<close> returns.
\<close>

datatype exn =
  HTTPException nat string
  | KeyError string
  | Exception string

text \<open>\<^verbatim>\<open>FileResponse(path, media_type=..., filename=...)\<close>. Building it does not touch the file.\<close>

datatype response = FileResponse path string string

definition BASE_DOWNLOAD_DIR :: path where
  "BASE_DOWNLOAD_DIR = ''downloads''"

definition FFMPEG_PATH :: string where
  "FFMPEG_PATH = ''ffmpeg''"

definition YT_DLP_PATH :: string where
  "YT_DLP_PATH = ''yt-dlp''"

definition path_join :: "path \<Rightarrow> string \<Rightarrow> path" where
  "path_join d name = d @ ''/'' @ name"

section \<open>The world outside the program\<close>

text \<open>
  The state the handlers act on: the files that exist (with their size in bytes), the
  external work begun so far in order (child processes that were started, metadata
  extractions that were invoked), and the paths removed by a successful \<^verbatim>\<open>unlink\<close>.
  \<open>Popen argv (Some up)\<close> is a child whose standard input is the standard output of the
  child started with \<open>up\<close>.
\<close>

datatype ext_call =
  Popen "string list" "string list option"
  | Run "string list"
  | ExtractInfo string

record world =
  files :: "path \<rightharpoonup> nat"
  started :: "ext_call list"
  unlinked :: "path list"

text \<open>
  What the downloader, the transcoder, the operating system and the libraries do is not
  part of the repository. It is a parameter of every definition below, and every theorem
  holds for all of its values. External processes are assumed to exit.

  \<^item> \<open>spawn_error argv fs\<close>: the message of the \<^verbatim>\<open>OSError\<close> raised by \<^verbatim>\<open>Popen\<close> or
    \<^verbatim>\<open>subprocess.run\<close> when the child cannot be started, if any.
  \<^item> \<open>pipe_exit yt ff fs\<close>: both children of the audio pipeline were started and have
    exited.
  \<^item> \<open>orphan_exit yt fs\<close>: the files after the downloader was started alone and reaped.
  \<^item> \<open>run_exit argv fs\<close>: \<^verbatim>\<open>subprocess.run(argv, capture_output=True, text=True)\<close> once the
    child was started. With \<^verbatim>\<open>text=True\<close> the captured output is decoded strictly:
    \<open>decode_error\<close> is the message of the \<^verbatim>\<open>UnicodeDecodeError\<close> that \<^verbatim>\<open>run\<close> then raises,
    if any.
  \<^item> \<open>decode_utf8 bytes\<close>: \<^verbatim>\<open>bytes.decode('utf-8')\<close>, \<open>Inl\<close> the message of the
    \<^verbatim>\<open>UnicodeDecodeError\<close>.
  \<^item> \<open>exists_error site p fs\<close>: the message of the \<^verbatim>\<open>OSError\<close> raised by \<^verbatim>\<open>Path.exists\<close>,
    if any (\<^verbatim>\<open>exists\<close> answers \<^verbatim>\<open>False\<close> for a missing file and raises other errors of
    \<^verbatim>\<open>stat\<close>, such as a directory that may not be searched). The two calls of a
    handler, in the \<^verbatim>\<open>try\<close> block and in the \<^verbatim>\<open>finally\<close> clause, are told apart by
    \<open>site\<close>.
  \<^item> \<open>unlink_error p fs\<close>: the message of the \<^verbatim>\<open>OSError\<close> raised by \<^verbatim>\<open>Path.unlink\<close> on
    an existing file, if any.
  \<^item> \<open>extract_info url\<close>: \<^verbatim>\<open>YoutubeDL(opts).extract_info(url, download=False)\<close>, \<open>Inl\<close>
    the message of the exception it raises.
  \<^item> \<open>http_str status detail\<close>: \<^verbatim>\<open>str(e)\<close> of an \<^verbatim>\<open>HTTPException\<close> (it depends on the
    version of the web framework).
  \<^item> \<open>coerce_str\<close>, \<open>coerce_int\<close>, \<open>coerce_list\<close>: what the validation library makes of
    a value that is not of the declared type (\<open>None\<close>: it is rejected), and
    \<open>validation_error_str\<close>: the text of the resulting \<^verbatim>\<open>ValidationError\<close>.
\<close>

record pipe_result =
  yt_dlp_returncode :: int
  ffmpeg_returncode :: int
  ffmpeg_stderr :: string
  pipe_files :: "path \<rightharpoonup> nat"

record run_result =
  decode_error :: "string option"
  returncode :: int
  stderr :: string
  run_files :: "path \<rightharpoonup> nat"

datatype site = In_try | In_finally

record tools =
  spawn_error :: "string list \<Rightarrow> (path \<rightharpoonup> nat) \<Rightarrow> string option"
  pipe_exit :: "string list \<Rightarrow> string list \<Rightarrow> (path \<rightharpoonup> nat) \<Rightarrow> pipe_result"
  orphan_exit :: "string list \<Rightarrow> (path \<rightharpoonup> nat) \<Rightarrow> (path \<rightharpoonup> nat)"
  run_exit :: "string list \<Rightarrow> (path \<rightharpoonup> nat) \<Rightarrow> run_result"
  decode_utf8 :: "string \<Rightarrow> string + string"
  exists_error :: "site \<Rightarrow> path \<Rightarrow> (path \<rightharpoonup> nat) \<Rightarrow> string option"
  unlink_error :: "path \<Rightarrow> (path \<rightharpoonup> nat) \<Rightarrow> string option"
  extract_info :: "string \<Rightarrow> string + (string \<rightharpoonup> pyval)"
  http_str :: "nat \<Rightarrow> string \<Rightarrow> string"
  coerce_str :: "pyval \<Rightarrow> string option"
  coerce_int :: "pyval \<Rightarrow> int option"
  coerce_list :: "pyval \<Rightarrow> pyval list option"
  validation_error_str :: "pyval list \<Rightarrow> string"

subsection \<open>Python primitives\<close>

text \<open>\<^verbatim>\<open>repr\<close> of a string without quotes or escapes: the string in single quotes.\<close>

definition repr_str :: "string \<Rightarrow> string" where
  "repr_str s = [CHR 0x27] @ s @ [CHR 0x27]"

text \<open>\<^verbatim>\<open>str(e)\<close>. For a \<^verbatim>\<open>KeyError\<close> it is the \<^verbatim>\<open>repr\<close> of the key.\<close>

fun str_exn :: "tools \<Rightarrow> exn \<Rightarrow> string" where
  "str_exn t (HTTPException status detail) = http_str t status detail"
| "str_exn t (KeyError k) = repr_str k"
| "str_exn t (Exception msg) = msg"

text \<open>\<^verbatim>\<open>d[k]\<close> and \<^verbatim>\<open>d.get(k, default)\<close> on a dictionary.\<close>

definition dict_getitem :: "(string \<rightharpoonup> pyval) \<Rightarrow> string \<Rightarrow> exn + pyval" where
  "dict_getitem d k = (case d k of None \<Rightarrow> Inl (KeyError k) | Some v \<Rightarrow> Inr v)"

definition dict_get :: "(string \<rightharpoonup> pyval) \<Rightarrow> string \<Rightarrow> pyval \<Rightarrow> pyval" where
  "dict_get d k dflt = (case d k of None \<Rightarrow> dflt | Some v \<Rightarrow> v)"

text \<open>\<^verbatim>\<open>Path.exists()\<close> and \<^verbatim>\<open>Path.unlink()\<close>.\<close>

definition path_exists :: "tools \<Rightarrow> site \<Rightarrow> path \<Rightarrow> world \<Rightarrow> exn + bool" where
  "path_exists t s p w =
     (case exists_error t s p (files w) of
        Some msg \<Rightarrow> Inl (Exception msg)
      | None \<Rightarrow> Inr (files w p \<noteq> None))"

definition path_unlink :: "tools \<Rightarrow> path \<Rightarrow> world \<Rightarrow> (exn + unit) \<times> world" where
  "path_unlink t p w =
     (if files w p = None
      then (Inl (Exception (''[Errno 2] No such file or directory: '' @ repr_str p)), w)
      else (case unlink_error t p (files w) of
              Some msg \<Rightarrow> (Inl (Exception msg), w)
            | None \<Rightarrow> (Inr (), w\<lparr>files := (files w)(p := None), unlinked := unlinked w @ [p]\<rparr>)))"

text \<open>Field validation of a model: a value of the declared type is taken as it is.\<close>

definition pydantic_str :: "tools \<Rightarrow> pyval \<Rightarrow> string option" where
  "pydantic_str t v = (case v of VStr s \<Rightarrow> Some s | _ \<Rightarrow> coerce_str t v)"

definition pydantic_int :: "tools \<Rightarrow> pyval \<Rightarrow> int option" where
  "pydantic_int t v = (case v of VInt n \<Rightarrow> Some n | _ \<Rightarrow> coerce_int t v)"

definition pydantic_list :: "tools \<Rightarrow> pyval \<Rightarrow> pyval list option" where
  "pydantic_list t v = (case v of VList xs \<Rightarrow> Some xs | _ \<Rightarrow> coerce_list t v)"

text \<open>
  \<^verbatim>\<open>MediaRequest\<close> built from a request body (lines 11-13): \<^verbatim>\<open>videoUrl\<close> has no default,
  so it is required; \<^verbatim>\<open>format\<close> defaults to \<^verbatim>\<open>"bestaudio/best"\<close>. \<open>None\<close>: the body
  does not validate.
\<close>

definition MediaRequest_init :: "tools \<Rightarrow> (string \<rightharpoonup> pyval) \<Rightarrow> MediaRequest option" where
  "MediaRequest_init t body =
     (case body ''videoUrl'' of
        None \<Rightarrow> None
      | Some u \<Rightarrow>
          do {
            url \<leftarrow> pydantic_str t u;
            fmt \<leftarrow> (case body ''format'' of
                      None \<Rightarrow> Some ''bestaudio/best''
                    | Some f \<Rightarrow> pydantic_str t f);
            Some \<lparr>videoUrl = url, format = fmt\<rparr>
          })"

text \<open>
  \<^verbatim>\<open>VideoMetadata(title=..., ...)\<close> (lines 16-24, 83-92): all fields are validated, and one
  \<^verbatim>\<open>ValidationError\<close> is raised when any of them is rejected.
\<close>

definition VideoMetadata_init ::
  "tools \<Rightarrow> pyval \<Rightarrow> pyval \<Rightarrow> pyval \<Rightarrow> pyval \<Rightarrow> pyval \<Rightarrow> pyval \<Rightarrow> pyval \<Rightarrow> pyval \<Rightarrow> exn + VideoMetadata"
where
  "VideoMetadata_init t ti au le vc ud li de th =
     (case do {
             ti' \<leftarrow> pydantic_str t ti;
             au' \<leftarrow> pydantic_str t au;
             le' \<leftarrow> pydantic_int t le;
             vc' \<leftarrow> pydantic_int t vc;
             ud' \<leftarrow> pydantic_str t ud;
             li' \<leftarrow> pydantic_int t li;
             de' \<leftarrow> pydantic_str t de;
             th' \<leftarrow> pydantic_list t th;
             Some \<lparr>title = ti', author = au', length_seconds = le', view_count = vc',
                   upload_date = ud', likes = li', description = de', thumbnails = th'\<rparr>
           } of
        None \<Rightarrow> Inl (Exception (validation_error_str t [ti, au, le, vc, ud, li, de, th]))
      | Some m \<Rightarrow> Inr m)"

section \<open>The pipeline: \<^verbatim>\<open>download_media\<close> (lines 34-62)\<close>

definition ytdlp_command :: "string \<Rightarrow> string \<Rightarrow> string list" where
  "ytdlp_command video_url media_format =
     [YT_DLP_PATH, video_url, ''--format'', media_format, ''-o'', ''-'']"

definition ffmpeg_command :: "path \<Rightarrow> string list" where
  "ffmpeg_command output_file =
     [FFMPEG_PATH, ''-i'', ''pipe:0'', ''-vn'', ''-acodec'', ''libmp3lame'',
      ''-ar'', ''44100'', ''-ab'', ''192k'', ''-f'', ''mp3'', output_file]"

text \<open>
  The body of the \<^verbatim>\<open>try\<close> of \<^verbatim>\<open>download_media\<close>. The downloader is started first, then the
  transcoder reading from it; \<^verbatim>\<open>communicate()\<close> waits for the transcoder, and leaving
  the two \<^verbatim>\<open>with\<close> blocks waits for both. Only the transcoder's return code is read.
\<close>

definition download_media_try ::
  "tools \<Rightarrow> string \<Rightarrow> string \<Rightarrow> path \<Rightarrow> world \<Rightarrow> (exn + unit) \<times> world"
where
  "download_media_try t video_url media_format output_file w =
     (let command = ytdlp_command video_url media_format;
          ffmpeg = ffmpeg_command output_file
      in case spawn_error t command (files w) of
           Some msg \<Rightarrow> (Inl (Exception msg), w)
         | None \<Rightarrow>
             (let w1 = w\<lparr>started := started w @ [Popen command None]\<rparr>
              in case spawn_error t ffmpeg (files w1) of
                   Some msg \<Rightarrow> (Inl (Exception msg), w1\<lparr>files := orphan_exit t command (files w1)\<rparr>)
                 | None \<Rightarrow>
                     (let r = pipe_exit t command ffmpeg (files w1);
                          w2 = w1\<lparr>started := started w1 @ [Popen ffmpeg (Some command)],
                                  files := pipe_files r\<rparr>
                      in if ffmpeg_returncode r \<noteq> 0
                         then (case decode_utf8 t (ffmpeg_stderr r) of
                                 Inl msg \<Rightarrow> (Inl (Exception msg), w2)
                               | Inr text \<Rightarrow> (Inl (Exception (''FFmpeg error: '' @ text)), w2))
                         else (Inr (), w2))))"

definition download_media ::
  "tools \<Rightarrow> string \<Rightarrow> string \<Rightarrow> path \<Rightarrow> world \<Rightarrow> (exn + unit) \<times> world"
where
  "download_media t video_url media_format output_file w =
     (case download_media_try t video_url media_format output_file w of
        (Inl e, w') \<Rightarrow> (Inl (HTTPException 500 (''Error processing video: '' @ str_exn t e)), w')
      | (Inr u, w') \<Rightarrow> (Inr u, w'))"

section \<open>The handlers\<close>

subsection \<open>\<^verbatim>\<open>youtube_metadata\<close> (lines 65-96)\<close>

definition youtube_metadata_try :: "tools \<Rightarrow> string \<Rightarrow> exn + VideoMetadata" where
  "youtube_metadata_try t video_url =
     (case extract_info t video_url of
        Inl msg \<Rightarrow> Inl (Exception msg)
      | Inr video_info \<Rightarrow>
          (case dict_getitem video_info ''title'' of Inl e \<Rightarrow> Inl e | Inr ti \<Rightarrow>
          (case dict_getitem video_info ''uploader'' of Inl e \<Rightarrow> Inl e | Inr au \<Rightarrow>
          (case dict_getitem video_info ''duration'' of Inl e \<Rightarrow> Inl e | Inr le \<Rightarrow>
          (let vc = dict_get video_info ''view_count'' (VInt 0) in
          (case dict_getitem video_info ''upload_date'' of Inl e \<Rightarrow> Inl e | Inr ud \<Rightarrow>
          (let li = dict_get video_info ''like_count'' (VInt 0);
               de = dict_get video_info ''description'' (VStr '''') in
          (case dict_getitem video_info ''thumbnails'' of Inl e \<Rightarrow> Inl e | Inr th \<Rightarrow>
             VideoMetadata_init t ti au le vc ud li de th))))))))"

definition youtube_metadata ::
  "tools \<Rightarrow> MediaRequest \<Rightarrow> world \<Rightarrow> (exn + VideoMetadata) \<times> world"
where
  "youtube_metadata t video w =
     (let video_url = videoUrl video
      in if video_url = []
         then (Inl (HTTPException 400 ''Video URL is required.''), w)
         else (let w1 = w\<lparr>started := started w @ [ExtractInfo video_url]\<rparr>
               in case youtube_metadata_try t video_url of
                    Inl e \<Rightarrow>
                      (Inl (HTTPException 500 (''Error fetching video details: '' @ str_exn t e)), w1)
                  | Inr metadata \<Rightarrow> (Inr metadata, w1)))"

subsection \<open>The \<^verbatim>\<open>except\<close> and \<^verbatim>\<open>finally\<close> clauses of the conversion handlers\<close>

text \<open>
  \<^verbatim>\<open>except Exception as e: raise HTTPException(500, f"Error processing the request: {str(e)}")\<close>
  (lines 125-126 and 167-168).
\<close>

definition except_Exception :: "tools \<Rightarrow> (exn + 'a) \<times> world \<Rightarrow> (exn + 'a) \<times> world" where
  "except_Exception t rw =
     (case rw of
        (Inl e, w) \<Rightarrow> (Inl (HTTPException 500 (''Error processing the request: '' @ str_exn t e)), w)
      | (Inr v, w) \<Rightarrow> (Inr v, w))"

text \<open>
  \<^verbatim>\<open>finally: if output_file.exists(): output_file.unlink()\<close> (lines 127-130 and 169-172).
  It runs after a \<^verbatim>\<open>return\<close> and after the \<^verbatim>\<open>raise\<close> of the \<^verbatim>\<open>except\<close> clause alike; an
  exception raised in it, by \<^verbatim>\<open>exists\<close> or by \<^verbatim>\<open>unlink\<close>, replaces the pending result.
\<close>

definition finally_unlink ::
  "tools \<Rightarrow> path \<Rightarrow> (exn + 'a) \<times> world \<Rightarrow> (exn + 'a) \<times> world"
where
  "finally_unlink t output_file rw =
     (case rw of
        (r, w) \<Rightarrow>
          (case path_exists t In_finally output_file w of
             Inl e \<Rightarrow> (Inl e, w)
           | Inr found \<Rightarrow>
               if found
               then (case path_unlink t output_file w of
                       (Inl e, w') \<Rightarrow> (Inl e, w')
                     | (Inr u, w') \<Rightarrow> (r, w'))
               else (r, w)))"

subsection \<open>\<^verbatim>\<open>youtube_to_mp3\<close> (lines 99-130)\<close>

text \<open>Line 110: the output file of a request.\<close>

definition mp3_output_file :: "MediaRequest \<Rightarrow> path" where
  "mp3_output_file request = path_join BASE_DOWNLOAD_DIR ''audio.mp3''"

definition youtube_to_mp3_try ::
  "tools \<Rightarrow> string \<Rightarrow> string \<Rightarrow> path \<Rightarrow> world \<Rightarrow> (exn + response) \<times> world"
where
  "youtube_to_mp3_try t video_url media_format output_file w =
     (case download_media t video_url media_format output_file w of
        (Inl e, w') \<Rightarrow> (Inl e, w')
      | (Inr u, w') \<Rightarrow>
          (case path_exists t In_try output_file w' of
             Inl e \<Rightarrow> (Inl e, w')
           | Inr found \<Rightarrow>
               if \<not> found
               then (Inl (HTTPException 500 ''Audio conversion failed, file not created.''), w')
               else (Inr (FileResponse output_file ''audio/mpeg'' ''audio.mp3''), w')))"

definition youtube_to_mp3 ::
  "tools \<Rightarrow> MediaRequest \<Rightarrow> world \<Rightarrow> (exn + response) \<times> world"
where
  "youtube_to_mp3 t request w =
     (let video_url = videoUrl request;
          media_format = format request
      in if video_url = []
         then (Inl (HTTPException 400 ''Video URL is required.''), w)
         else (let output_file = mp3_output_file request
               in finally_unlink t output_file
                    (except_Exception t
                       (youtube_to_mp3_try t video_url media_format output_file w))))"

subsection \<open>\<^verbatim>\<open>youtube_to_video\<close> (lines 133-172)\<close>

text \<open>Line 144: the output file of a request.\<close>

definition video_output_file :: "MediaRequest \<Rightarrow> path" where
  "video_output_file request = path_join BASE_DOWNLOAD_DIR ''video.mp4''"

definition video_command :: "string \<Rightarrow> string \<Rightarrow> path \<Rightarrow> string list" where
  "video_command video_url media_format output_file =
     [YT_DLP_PATH, video_url, ''--format'', media_format, ''-o'', output_file]"

definition youtube_to_video_try ::
  "tools \<Rightarrow> string \<Rightarrow> string \<Rightarrow> path \<Rightarrow> world \<Rightarrow> (exn + response) \<times> world"
where
  "youtube_to_video_try t video_url media_format output_file w =
     (let command = video_command video_url media_format output_file
      in case spawn_error t command (files w) of
           Some msg \<Rightarrow> (Inl (Exception msg), w)
         | None \<Rightarrow>
             (let result = run_exit t command (files w);
                  w1 = w\<lparr>started := started w @ [Run command], files := run_files result\<rparr>
              in case decode_error result of
                   Some msg \<Rightarrow> (Inl (Exception msg), w1)
                 | None \<Rightarrow>
                     if returncode result \<noteq> 0
                     then (Inl (Exception (''yt-dlp error: '' @ stderr result)), w1)
                     else (case path_exists t In_try output_file w1 of
                             Inl e \<Rightarrow> (Inl e, w1)
                           | Inr found \<Rightarrow>
                               if \<not> found
                               then (Inl (HTTPException 500
                                      ''Video download failed, file not created.''), w1)
                               else (Inr (FileResponse output_file
                                      ''video/mp4'' ''video.mp4''), w1))))"

definition youtube_to_video ::
  "tools \<Rightarrow> MediaRequest \<Rightarrow> world \<Rightarrow> (exn + response) \<times> world"
where
  "youtube_to_video t request w =
     (let video_url = videoUrl request;
          media_format = format request
      in if video_url = []
         then (Inl (HTTPException 400 ''Video URL is required.''), w)
         else (let output_file = video_output_file request
               in finally_unlink t output_file
                    (except_Exception t
                       (youtube_to_video_try t video_url media_format output_file w))))"

subsection \<open>Routes\<close>

text \<open>
  A handler is declared with a \<^verbatim>\<open>MediaRequest\<close> parameter (lines 66, 100, 134): the
  framework builds the model from the request body and calls the handler only when the
  body validates. \<open>Rejected\<close>: the handler was not called.
\<close>

datatype 'a outcome =
  Rejected
  | Raised exn
  | Returned 'a

definition route ::
  "(tools \<Rightarrow> MediaRequest \<Rightarrow> world \<Rightarrow> (exn + 'a) \<times> world) \<Rightarrow>
   tools \<Rightarrow> (string \<rightharpoonup> pyval) \<Rightarrow> world \<Rightarrow> 'a outcome \<times> world"
where
  "route handler t body w =
     (case MediaRequest_init t body of
        None \<Rightarrow> (Rejected, w)
      | Some request \<Rightarrow>
          (case handler t request w of
             (Inl e, w') \<Rightarrow> (Raised e, w')
           | (Inr v, w') \<Rightarrow> (Returned v, w')))"

section \<open>Concrete tools, requests and worlds\<close>

text \<open>\<^verbatim>\<open>str(n)\<close> of a natural number, for the framework's \<^verbatim>\<open>f"{status_code}: {detail}"\<close>.\<close>

definition digit_char :: "nat \<Rightarrow> char" where
  "digit_char d = ''0123456789'' ! d"

fun str_nat :: "nat \<Rightarrow> string" where
  "str_nat n =
     (if n < 10 then [digit_char n]
      else str_nat (n div 10) @ [digit_char (n mod 10)])"

declare str_nat.simps [simp del]

text \<open>Dictionaries an extractor may return: a complete one.\<close>

definition info_full :: "string \<rightharpoonup> pyval" where
  "info_full =
     [''title'' \<mapsto> VStr ''Song'', ''uploader'' \<mapsto> VStr ''Band'', ''duration'' \<mapsto> VInt 212,
      ''view_count'' \<mapsto> VInt 1000, ''upload_date'' \<mapsto> VStr ''20200101'',
      ''like_count'' \<mapsto> VInt 50, ''description'' \<mapsto> VStr ''Live'',
      ''thumbnails'' \<mapsto> VList [VStr ''t.jpg'']]"

text \<open>The same without the optional keys, and without the title.\<close>

definition info_required :: "string \<rightharpoonup> pyval" where
  "info_required =
     [''title'' \<mapsto> VStr ''Song'', ''uploader'' \<mapsto> VStr ''Band'', ''duration'' \<mapsto> VInt 212,
      ''upload_date'' \<mapsto> VStr ''20200101'', ''thumbnails'' \<mapsto> VList [VStr ''t.jpg'']]"

definition info_untitled :: "string \<rightharpoonup> pyval" where
  "info_untitled =
     [''uploader'' \<mapsto> VStr ''Band'', ''duration'' \<mapsto> VInt 212,
      ''upload_date'' \<mapsto> VStr ''20200101'', ''thumbnails'' \<mapsto> VList [VStr ''t.jpg'']]"

text \<open>
  Only \<^verbatim>\<open>title\<close>, \<^verbatim>\<open>uploader\<close>, \<^verbatim>\<open>duration\<close> and \<^verbatim>\<open>upload_date\<close>, without \<^verbatim>\<open>thumbnails\<close> and
  the optional keys; and a complete dictionary whose \<^verbatim>\<open>view_count\<close> is \<^verbatim>\<open>None\<close>.
\<close>

definition info_no_thumbnails :: "string \<rightharpoonup> pyval" where
  "info_no_thumbnails =
     [''title'' \<mapsto> VStr ''Song'', ''uploader'' \<mapsto> VStr ''Band'', ''duration'' \<mapsto> VInt 212,
      ''upload_date'' \<mapsto> VStr ''20200101'']"

definition info_none_views :: "string \<rightharpoonup> pyval" where
  "info_none_views =
     [''title'' \<mapsto> VStr ''Song'', ''uploader'' \<mapsto> VStr ''Band'', ''duration'' \<mapsto> VInt 212,
      ''view_count'' \<mapsto> VNone, ''upload_date'' \<mapsto> VStr ''20200101'',
      ''like_count'' \<mapsto> VInt 50, ''description'' \<mapsto> VStr ''Live'',
      ''thumbnails'' \<mapsto> VList [VStr ''t.jpg'']]"

text \<open>
  Tools that work: every child starts and exits with status zero, the last argument of
  the command is written with 4096 bytes, the output of the downloader decodes, \<^verbatim>\<open>exists\<close>
  and \<^verbatim>\<open>unlink\<close> do not raise, the validation library rejects every value that is not of
  the declared type, and the extractor returns one of the dictionaries above.
\<close>

definition tools_ok :: tools where
  "tools_ok =
     \<lparr>spawn_error = (\<lambda>argv fs. None),
      pipe_exit = (\<lambda>yt ff fs.
        \<lparr>yt_dlp_returncode = 0, ffmpeg_returncode = 0, ffmpeg_stderr = [],
         pipe_files = fs(last ff \<mapsto> 4096)\<rparr>),
      orphan_exit = (\<lambda>yt fs. fs),
      run_exit = (\<lambda>argv fs.
        \<lparr>decode_error = None, returncode = 0, stderr = [],
         run_files = fs(last argv \<mapsto> 4096)\<rparr>),
      decode_utf8 = Inr,
      exists_error = (\<lambda>s p fs. None),
      unlink_error = (\<lambda>p fs. None),
      extract_info = (\<lambda>url.
        if url = ''https://example.org/bare'' then Inr info_required
        else if url = ''https://example.org/nothumbs'' then Inr info_no_thumbnails
        else if url = ''https://example.org/noviews'' then Inr info_none_views
        else if url = ''https://example.org/untitled'' then Inr info_untitled
        else Inr info_full),
      http_str = (\<lambda>status detail. str_nat status @ '': '' @ detail),
      coerce_str = (\<lambda>v. None),
      coerce_int = (\<lambda>v. None),
      coerce_list = (\<lambda>v. None),
      validation_error_str = (\<lambda>vs. ''validation error for VideoMetadata'')\<rparr>"

text \<open>The downloader exits with status 0 and leaves an empty output file.\<close>

definition tools_empty_file :: tools where
  "tools_empty_file =
     tools_ok\<lparr>run_exit := (\<lambda>argv fs.
        \<lparr>decode_error = None, returncode = 0, stderr = [],
         run_files = fs(last argv \<mapsto> 0)\<rparr>)\<rparr>"

text \<open>Both tools fail, leaving a partial output file.\<close>

definition tools_failing :: tools where
  "tools_failing =
     tools_ok\<lparr>pipe_exit := (\<lambda>yt ff fs.
        \<lparr>yt_dlp_returncode = 1, ffmpeg_returncode = 1,
         ffmpeg_stderr = ''pipe:0: Invalid data found when processing input'',
         pipe_files = fs(last ff \<mapsto> 17)\<rparr>),
      run_exit := (\<lambda>argv fs.
        \<lparr>decode_error = None, returncode = 1, stderr = ''ERROR: Unsupported URL'',
         run_files = fs(last argv \<mapsto> 17)\<rparr>)\<rparr>"

text \<open>The tools exit with status 0 and write nothing.\<close>

definition tools_no_file :: tools where
  "tools_no_file =
     tools_ok\<lparr>pipe_exit := (\<lambda>yt ff fs.
        \<lparr>yt_dlp_returncode = 0, ffmpeg_returncode = 0, ffmpeg_stderr = [], pipe_files = fs\<rparr>),
      run_exit := (\<lambda>argv fs.
        \<lparr>decode_error = None, returncode = 0, stderr = [], run_files = fs\<rparr>)\<rparr>"

text \<open>Removing a file is refused by the operating system.\<close>

definition deny_unlink :: "tools \<Rightarrow> tools" where
  "deny_unlink t =
     t\<lparr>unlink_error := (\<lambda>p fs. Some (''[Errno 13] Permission denied: '' @ repr_str p))\<rparr>"

text \<open>The directory of the output file may not be searched: \<^verbatim>\<open>exists\<close> raises.\<close>

definition deny_stat :: "tools \<Rightarrow> tools" where
  "deny_stat t =
     t\<lparr>exists_error := (\<lambda>s p fs. Some (''[Errno 13] Permission denied: '' @ repr_str p))\<rparr>"

definition req_a :: MediaRequest where
  "req_a = \<lparr>videoUrl = ''https://example.org/a'', format = ''bestaudio/best''\<rparr>"

definition req_b :: MediaRequest where
  "req_b = \<lparr>videoUrl = ''https://example.org/b'', format = ''best''\<rparr>"

definition req_empty :: MediaRequest where
  "req_empty = \<lparr>videoUrl = [], format = ''bestaudio/best''\<rparr>"

definition req_bare :: MediaRequest where
  "req_bare = \<lparr>videoUrl = ''https://example.org/bare'', format = ''bestaudio/best''\<rparr>"

definition req_untitled :: MediaRequest where
  "req_untitled = \<lparr>videoUrl = ''https://example.org/untitled'', format = ''bestaudio/best''\<rparr>"

definition req_nothumbs :: MediaRequest where
  "req_nothumbs = \<lparr>videoUrl = ''https://example.org/nothumbs'', format = ''bestaudio/best''\<rparr>"

definition req_noviews :: MediaRequest where
  "req_noviews = \<lparr>videoUrl = ''https://example.org/noviews'', format = ''bestaudio/best''\<rparr>"

definition body_a :: "string \<rightharpoonup> pyval" where
  "body_a = [''videoUrl'' \<mapsto> VStr ''https://example.org/a'']"

definition body_no_url :: "string \<rightharpoonup> pyval" where
  "body_no_url = [''format'' \<mapsto> VStr ''best'']"

definition body_empty_url :: "string \<rightharpoonup> pyval" where
  "body_empty_url = [''videoUrl'' \<mapsto> VStr []]"

definition w0 :: world where
  "w0 = \<lparr>files = Map.empty, started = [], unlinked = []\<rparr>"

section \<open>Basic facts\<close>

lemma mp3_output_file_eq: "mp3_output_file request = ''downloads/audio.mp3''"
  by (simp add: mp3_output_file_def path_join_def BASE_DOWNLOAD_DIR_def)

lemma video_output_file_eq: "video_output_file request = ''downloads/video.mp4''"
  by (simp add: video_output_file_def path_join_def BASE_DOWNLOAD_DIR_def)

lemma finally_unlink_eq:
  "finally_unlink t p (r, w) =
     (case exists_error t In_finally p (files w) of
        Some msg \<Rightarrow> (Inl (Exception msg), w)
      | None \<Rightarrow>
          if files w p = None then (r, w)
          else (case unlink_error t p (files w) of
                  Some msg \<Rightarrow> (Inl (Exception msg), w)
                | None \<Rightarrow> (r, w\<lparr>files := (files w)(p := None), unlinked := unlinked w @ [p]\<rparr>)))"
  by (simp add: finally_unlink_def path_exists_def path_unlink_def split: option.splits)

lemma except_Exception_Inl:
  "except_Exception t (Inl e, w) =
     (Inl (HTTPException 500 (''Error processing the request: '' @ str_exn t e)), w)"
  by (simp add: except_Exception_def)

lemma except_Exception_Inr: "except_Exception t (Inr v, w) = (Inr v, w)"
  by (simp add: except_Exception_def)

lemma except_Exception_snd: "snd (except_Exception t rw) = snd rw"
  by (cases rw) (auto simp: except_Exception_def split: sum.splits)

lemma except_Exception_fst:
  "fst (except_Exception t rw) =
     (case fst rw of
        Inl e \<Rightarrow> Inl (HTTPException 500 (''Error processing the request: '' @ str_exn t e))
      | Inr v \<Rightarrow> Inr v)"
  by (cases rw) (simp add: except_Exception_def split: sum.splits)

text \<open>
  The result, the output file and the removals of a handler, from those of its
  \<^verbatim>\<open>try\<close> block.
\<close>

lemma handler_fst:
  "fst (finally_unlink t p (except_Exception t rw)) =
     (case exists_error t In_finally p (files (snd rw)) of
        Some msg \<Rightarrow> Inl (Exception msg)
      | None \<Rightarrow>
          (case (if files (snd rw) p = None then None
                 else unlink_error t p (files (snd rw))) of
             Some msg \<Rightarrow> Inl (Exception msg)
           | None \<Rightarrow>
               (case fst rw of
                  Inl e \<Rightarrow>
                    Inl (HTTPException 500 (''Error processing the request: '' @ str_exn t e))
                | Inr v \<Rightarrow> Inr v)))"
  by (cases rw) (simp add: except_Exception_def finally_unlink_eq split: option.splits sum.splits)

lemma handler_files:
  "files (snd (finally_unlink t p (except_Exception t rw))) p =
     (if exists_error t In_finally p (files (snd rw)) = None \<and>
         unlink_error t p (files (snd rw)) = None
      then None else files (snd rw) p)"
  by (cases rw) (simp add: except_Exception_def finally_unlink_eq split: option.splits sum.splits)

lemma handler_unlinked:
  "unlinked (snd (finally_unlink t p (except_Exception t rw))) =
     unlinked (snd rw) @
       (if exists_error t In_finally p (files (snd rw)) = None \<and>
           files (snd rw) p \<noteq> None \<and> unlink_error t p (files (snd rw)) = None
        then [p] else [])"
  by (cases rw) (simp add: except_Exception_def finally_unlink_eq split: option.splits sum.splits)

lemma finally_unlink_started: "started (snd (finally_unlink t p rw)) = started (snd rw)"
  by (cases rw) (auto simp: finally_unlink_eq split: option.splits)

text \<open>The audio pipeline.\<close>

lemma download_media_try_unlinked:
  "unlinked (snd (download_media_try t u f p w)) = unlinked w"
  by (simp add: download_media_try_def Let_def split: option.splits sum.splits)

lemma download_media_try_started:
  "started (snd (download_media_try t u f p w)) =
     started w @
       (case spawn_error t (ytdlp_command u f) (files w) of
          Some msg \<Rightarrow> []
        | None \<Rightarrow>
            Popen (ytdlp_command u f) None #
              (case spawn_error t (ffmpeg_command p) (files w) of
                 Some msg \<Rightarrow> []
               | None \<Rightarrow> [Popen (ffmpeg_command p) (Some (ytdlp_command u f))]))"
  by (simp add: download_media_try_def Let_def split: option.splits sum.splits)

lemma download_media_try_files:
  "files (snd (download_media_try t u f p w)) =
     (case spawn_error t (ytdlp_command u f) (files w) of
        Some msg \<Rightarrow> files w
      | None \<Rightarrow>
          (case spawn_error t (ffmpeg_command p) (files w) of
             Some msg \<Rightarrow> orphan_exit t (ytdlp_command u f) (files w)
           | None \<Rightarrow> pipe_files (pipe_exit t (ytdlp_command u f) (ffmpeg_command p) (files w))))"
  by (simp add: download_media_try_def Let_def split: option.splits sum.splits)

lemma download_media_try_fst:
  "fst (download_media_try t u f p w) =
     (case spawn_error t (ytdlp_command u f) (files w) of
        Some msg \<Rightarrow> Inl (Exception msg)
      | None \<Rightarrow>
          (case spawn_error t (ffmpeg_command p) (files w) of
             Some msg \<Rightarrow> Inl (Exception msg)
           | None \<Rightarrow>
               (if ffmpeg_returncode
                     (pipe_exit t (ytdlp_command u f) (ffmpeg_command p) (files w)) \<noteq> 0
                then (case decode_utf8 t (ffmpeg_stderr
                        (pipe_exit t (ytdlp_command u f) (ffmpeg_command p) (files w))) of
                        Inl msg \<Rightarrow> Inl (Exception msg)
                      | Inr text \<Rightarrow> Inl (Exception (''FFmpeg error: '' @ text)))
                else Inr ())))"
  by (simp add: download_media_try_def Let_def split: option.splits sum.splits)

lemma download_media_unlinked:
  "unlinked (snd (download_media t u f p w)) = unlinked w"
  using download_media_try_unlinked [of t u f p w]
  by (cases "download_media_try t u f p w") (auto simp: download_media_def split: sum.splits)

lemma download_media_started:
  "started (snd (download_media t u f p w)) = started (snd (download_media_try t u f p w))"
  by (cases "download_media_try t u f p w") (auto simp: download_media_def split: sum.splits)

lemma download_media_files:
  "files (snd (download_media t u f p w)) = files (snd (download_media_try t u f p w))"
  by (cases "download_media_try t u f p w") (auto simp: download_media_def split: sum.splits)

lemma download_media_fst:
  "fst (download_media t u f p w) =
     (case fst (download_media_try t u f p w) of
        Inl e \<Rightarrow> Inl (HTTPException 500 (''Error processing video: '' @ str_exn t e))
      | Inr v \<Rightarrow> Inr v)"
  by (cases "download_media_try t u f p w") (auto simp: download_media_def split: sum.splits)

text \<open>The \<^verbatim>\<open>try\<close> blocks of the conversion handlers.\<close>

lemma youtube_to_mp3_try_snd:
  "snd (youtube_to_mp3_try t u f p w) = snd (download_media t u f p w)"
  by (cases "download_media t u f p w")
    (auto simp: youtube_to_mp3_try_def split: sum.splits)

lemma youtube_to_mp3_try_unlinked:
  "unlinked (snd (youtube_to_mp3_try t u f p w)) = unlinked w"
  by (simp add: youtube_to_mp3_try_snd download_media_unlinked)

lemma youtube_to_mp3_try_started:
  "started (snd (youtube_to_mp3_try t u f p w)) = started (snd (download_media t u f p w))"
  by (simp add: youtube_to_mp3_try_snd)

lemma youtube_to_mp3_try_files:
  "files (snd (youtube_to_mp3_try t u f p w)) = files (snd (download_media t u f p w))"
  by (simp add: youtube_to_mp3_try_snd)

lemma youtube_to_mp3_try_fst:
  "fst (youtube_to_mp3_try t u f p w) =
     (case fst (download_media t u f p w) of
        Inl e \<Rightarrow> Inl e
      | Inr v \<Rightarrow>
          (case exists_error t In_try p (files (snd (download_media t u f p w))) of
             Some msg \<Rightarrow> Inl (Exception msg)
           | None \<Rightarrow>
               (if files (snd (download_media t u f p w)) p = None
                then Inl (HTTPException 500 ''Audio conversion failed, file not created.'')
                else Inr (FileResponse p ''audio/mpeg'' ''audio.mp3''))))"
  by (cases "download_media t u f p w")
    (auto simp: youtube_to_mp3_try_def path_exists_def split: sum.splits option.splits)

lemma youtube_to_video_try_unlinked:
  "unlinked (snd (youtube_to_video_try t u f p w)) = unlinked w"
  by (simp add: youtube_to_video_try_def Let_def split: option.splits sum.splits)

lemma youtube_to_video_try_started:
  "started (snd (youtube_to_video_try t u f p w)) =
     started w @
       (case spawn_error t (video_command u f p) (files w) of
          Some msg \<Rightarrow> []
        | None \<Rightarrow> [Run (video_command u f p)])"
  by (simp add: youtube_to_video_try_def Let_def split: option.splits sum.splits)

lemma youtube_to_video_try_files:
  "files (snd (youtube_to_video_try t u f p w)) =
     (case spawn_error t (video_command u f p) (files w) of
        Some msg \<Rightarrow> files w
      | None \<Rightarrow> run_files (run_exit t (video_command u f p) (files w)))"
  by (simp add: youtube_to_video_try_def Let_def split: option.splits sum.splits)

lemma youtube_to_video_try_fst:
  "fst (youtube_to_video_try t u f p w) =
     (case spawn_error t (video_command u f p) (files w) of
        Some msg \<Rightarrow> Inl (Exception msg)
      | None \<Rightarrow>
          (case decode_error (run_exit t (video_command u f p) (files w)) of
             Some msg \<Rightarrow> Inl (Exception msg)
           | None \<Rightarrow>
               (if returncode (run_exit t (video_command u f p) (files w)) \<noteq> 0
                then Inl (Exception (''yt-dlp error: '' @
                       stderr (run_exit t (video_command u f p) (files w))))
                else (case exists_error t In_try p
                             (run_files (run_exit t (video_command u f p) (files w))) of
                        Some msg \<Rightarrow> Inl (Exception msg)
                      | None \<Rightarrow>
                          (if run_files (run_exit t (video_command u f p) (files w)) p = None
                           then Inl (HTTPException 500 ''Video download failed, file not created.'')
                           else Inr (FileResponse p ''video/mp4'' ''video.mp4''))))))"
  by (simp add: youtube_to_video_try_def path_exists_def Let_def split: option.splits sum.splits)

lemma youtube_to_mp3_try_Inr:
  "youtube_to_mp3_try t u f p w = (Inr resp, w1) \<Longrightarrow>
     resp = FileResponse p ''audio/mpeg'' ''audio.mp3'' \<and> files w1 p \<noteq> None"
  using youtube_to_mp3_try_fst [of t u f p w] youtube_to_mp3_try_files [of t u f p w]
  by (cases "fst (download_media t u f p w)") (auto split: option.splits if_splits)

lemma youtube_to_video_try_Inr:
  "youtube_to_video_try t u f p w = (Inr resp, w1) \<Longrightarrow>
     resp = FileResponse p ''video/mp4'' ''video.mp4'' \<and> files w1 p \<noteq> None"
  using youtube_to_video_try_fst [of t u f p w] youtube_to_video_try_files [of t u f p w]
  by (auto split: option.splits if_splits)

text \<open>The handlers after validation.\<close>

lemma youtube_to_mp3_unfold:
  "videoUrl request \<noteq> [] \<Longrightarrow>
   youtube_to_mp3 t request w =
     finally_unlink t ''downloads/audio.mp3''
       (except_Exception t
         (youtube_to_mp3_try t (videoUrl request) (format request) ''downloads/audio.mp3'' w))"
  by (simp add: youtube_to_mp3_def Let_def mp3_output_file_eq)

lemma youtube_to_video_unfold:
  "videoUrl request \<noteq> [] \<Longrightarrow>
   youtube_to_video t request w =
     finally_unlink t ''downloads/video.mp4''
       (except_Exception t
         (youtube_to_video_try t (videoUrl request) (format request) ''downloads/video.mp4'' w))"
  by (simp add: youtube_to_video_def Let_def video_output_file_eq)

lemma youtube_to_mp3_started:
  "videoUrl request \<noteq> [] \<Longrightarrow>
   started (snd (youtube_to_mp3 t request w)) =
     started (snd (download_media_try t (videoUrl request) (format request)
       ''downloads/audio.mp3'' w))"
  by (simp add: youtube_to_mp3_unfold finally_unlink_started except_Exception_snd
      youtube_to_mp3_try_started download_media_started)

lemma youtube_to_video_started:
  "videoUrl request \<noteq> [] \<Longrightarrow>
   started (snd (youtube_to_video t request w)) =
     started (snd (youtube_to_video_try t (videoUrl request) (format request)
       ''downloads/video.mp4'' w))"
  by (simp add: youtube_to_video_unfold finally_unlink_started except_Exception_snd)

lemma route_Some:
  "MediaRequest_init t body = Some request \<Longrightarrow>
   snd (route handler t body w) = snd (handler t request w)"
  by (cases "handler t request w") (auto simp: route_def split: sum.splits)

text \<open>The only responses the conversion handlers return.\<close>

lemma youtube_to_mp3_Inr:
  assumes "fst (youtube_to_mp3 t request w) = Inr resp"
  shows "resp = FileResponse ''downloads/audio.mp3'' ''audio/mpeg'' ''audio.mp3''"
proof (cases "videoUrl request = []")
  case True
  with assms show ?thesis
    by (simp add: youtube_to_mp3_def)
next
  case False
  let ?d = "download_media t (videoUrl request) (format request) ''downloads/audio.mp3'' w"
  from assms show ?thesis
    unfolding youtube_to_mp3_unfold [OF False] handler_fst youtube_to_mp3_try_fst
    by (cases "fst ?d") (auto split: option.splits if_splits)
qed

lemma youtube_to_video_Inr:
  assumes "fst (youtube_to_video t request w) = Inr resp"
  shows "resp = FileResponse ''downloads/video.mp4'' ''video/mp4'' ''video.mp4''"
proof (cases "videoUrl request = []")
  case True
  with assms show ?thesis
    by (simp add: youtube_to_video_def)
next
  case False
  from assms show ?thesis
    unfolding youtube_to_video_unfold [OF False] handler_fst youtube_to_video_try_fst
    by (auto split: option.splits if_splits)
qed

text \<open>Unfolding the handlers on concrete inputs.\<close>

lemmas handler_defs =
  youtube_to_mp3_def youtube_to_mp3_try_def download_media_def download_media_try_def
  youtube_to_video_def youtube_to_video_try_def video_command_def
  except_Exception_def finally_unlink_eq mp3_output_file_eq video_output_file_eq
  path_exists_def ytdlp_command_def ffmpeg_command_def Let_def

lemmas example_defs =
  req_a_def req_b_def req_empty_def w0_def tools_ok_def
  tools_empty_file_def tools_failing_def tools_no_file_def deny_unlink_def deny_stat_def

lemma mp3_ok_a:
  "fst (youtube_to_mp3 tools_ok req_a w0) =
     Inr (FileResponse ''downloads/audio.mp3'' ''audio/mpeg'' ''audio.mp3'')"
  by (simp add: handler_defs example_defs)

lemma video_ok_a:
  "fst (youtube_to_video tools_ok req_a w0) =
     Inr (FileResponse ''downloads/video.mp4'' ''video/mp4'' ''video.mp4'')"
  by (simp add: handler_defs example_defs)

section \<open>The output file of a request\<close>

text \<open>
  Claim C2, as the code has it: the output path does not depend on the request. Every
  request to the audio endpoint is given \<^verbatim>\<open>downloads/audio.mp3\<close> and every request to the
  video endpoint \<^verbatim>\<open>downloads/video.mp4\<close>; two requests to one endpoint share their path,
  and only requests to different endpoints have different paths. A response returned for
  one request names the file allocated to any other request to the same endpoint.
\<close>

theorem output_file_fixed_per_endpoint:
  "mp3_output_file r1 = ''downloads/audio.mp3'' \<and>
   video_output_file r1 = ''downloads/video.mp4'' \<and>
   mp3_output_file r1 = mp3_output_file r2 \<and>
   video_output_file r1 = video_output_file r2 \<and>
   mp3_output_file r1 \<noteq> video_output_file r2 \<and>
   (fst (youtube_to_mp3 t r1 w) = Inr resp \<longrightarrow>
      resp = FileResponse (mp3_output_file r2) ''audio/mpeg'' ''audio.mp3'') \<and>
   (fst (youtube_to_video t r1 w) = Inr resp \<longrightarrow>
      resp = FileResponse (video_output_file r2) ''video/mp4'' ''video.mp4'')"
  using youtube_to_mp3_Inr [of t r1 w resp] youtube_to_video_Inr [of t r1 w resp]
  by (simp add: mp3_output_file_eq video_output_file_eq)

theorem output_file_fixed_per_endpoint_witness:
  "fst (youtube_to_mp3 tools_ok req_a w0) =
     Inr (FileResponse (mp3_output_file req_b) ''audio/mpeg'' ''audio.mp3'') \<and>
   fst (youtube_to_video tools_ok req_a w0) =
     Inr (FileResponse (video_output_file req_b) ''video/mp4'' ''video.mp4'')"
proof -
  note f = output_file_fixed_per_endpoint [where ?r1.0 = req_a and ?r2.0 = req_b
      and t = tools_ok and w = w0]
  note a = f [where resp = "FileResponse ''downloads/audio.mp3'' ''audio/mpeg'' ''audio.mp3''",
      THEN conjunct2, THEN conjunct2, THEN conjunct2, THEN conjunct2, THEN conjunct2,
      THEN conjunct1, THEN mp, OF mp3_ok_a]
  note v = f [where resp = "FileResponse ''downloads/video.mp4'' ''video/mp4'' ''video.mp4''",
      THEN conjunct2, THEN conjunct2, THEN conjunct2, THEN conjunct2, THEN conjunct2,
      THEN conjunct2, THEN mp, OF video_ok_a]
  from a v mp3_ok_a video_ok_a show ?thesis
    by simp
qed

text \<open>
  Two different requests to the audio endpoint: the same path is allocated to both, and
  both responses name the same file.
\<close>

theorem output_file_shared_counterexample:
  "req_a \<noteq> req_b \<and>
   mp3_output_file req_a = mp3_output_file req_b \<and>
   fst (youtube_to_mp3 tools_ok req_a w0) =
     Inr (FileResponse ''downloads/audio.mp3'' ''audio/mpeg'' ''audio.mp3'') \<and>
   fst (youtube_to_mp3 tools_ok req_b w0) =
     Inr (FileResponse ''downloads/audio.mp3'' ''audio/mpeg'' ''audio.mp3'')"
  by (simp add: req_a_def req_b_def w0_def tools_ok_def youtube_to_mp3_def
      youtube_to_mp3_try_def download_media_def download_media_try_def
      except_Exception_def finally_unlink_eq mp3_output_file_eq path_exists_def
      ytdlp_command_def ffmpeg_command_def Let_def)

section \<open>Validation of the request\<close>

text \<open>
  Claim C4, as the code has it. A request whose \<^verbatim>\<open>videoUrl\<close> is the empty string: each of
  the three handlers raises \<^verbatim>\<open>HTTPException(400, "Video URL is required.")\<close> and leaves the
  world as it was, so no external work was begun. A request body without \<^verbatim>\<open>videoUrl\<close>:
  the field is required, the body is not a \<^verbatim>\<open>MediaRequest\<close>, and the handler is not
  called; nothing is begun either, but the answer is not the handler's 400.
\<close>

theorem empty_or_missing_url_starts_nothing:
  "(videoUrl request = [] \<longrightarrow>
      youtube_metadata t request w = (Inl (HTTPException 400 ''Video URL is required.''), w) \<and>
      youtube_to_mp3 t request w = (Inl (HTTPException 400 ''Video URL is required.''), w) \<and>
      youtube_to_video t request w = (Inl (HTTPException 400 ''Video URL is required.''), w)) \<and>
   (MediaRequest_init t body = Some request \<and> videoUrl request = [] \<longrightarrow>
      route youtube_metadata t body w = (Raised (HTTPException 400 ''Video URL is required.''), w) \<and>
      route youtube_to_mp3 t body w = (Raised (HTTPException 400 ''Video URL is required.''), w) \<and>
      route youtube_to_video t body w = (Raised (HTTPException 400 ''Video URL is required.''), w)) \<and>
   (body ''videoUrl'' = None \<longrightarrow>
      route youtube_metadata t body w = (Rejected, w) \<and>
      route youtube_to_mp3 t body w = (Rejected, w) \<and>
      route youtube_to_video t body w = (Rejected, w))"
  by (simp add: youtube_metadata_def youtube_to_mp3_def youtube_to_video_def route_def
      MediaRequest_init_def)

theorem empty_or_missing_url_starts_nothing_witness:
  "youtube_metadata tools_ok req_empty w0 = (Inl (HTTPException 400 ''Video URL is required.''), w0) \<and>
   youtube_to_mp3 tools_ok req_empty w0 = (Inl (HTTPException 400 ''Video URL is required.''), w0) \<and>
   youtube_to_video tools_ok req_empty w0 = (Inl (HTTPException 400 ''Video URL is required.''), w0) \<and>
   MediaRequest_init tools_ok body_empty_url = Some req_empty \<and>
   route youtube_to_mp3 tools_ok body_empty_url w0 =
     (Raised (HTTPException 400 ''Video URL is required.''), w0) \<and>
   body_no_url ''videoUrl'' = None \<and>
   route youtube_metadata tools_ok body_no_url w0 = (Rejected, w0) \<and>
   route youtube_to_mp3 tools_ok body_no_url w0 = (Rejected, w0) \<and>
   route youtube_to_video tools_ok body_no_url w0 = (Rejected, w0)"
proof -
  have e: "videoUrl req_empty = []"
    by (simp add: req_empty_def)
  have i: "MediaRequest_init tools_ok body_empty_url = Some req_empty"
    by (simp add: MediaRequest_init_def body_empty_url_def req_empty_def pydantic_str_def)
  have n: "body_no_url ''videoUrl'' = None"
    by (simp add: body_no_url_def)
  note all = empty_or_missing_url_starts_nothing
      [where request = req_empty and t = tools_ok and w = w0]
  note h = all [THEN conjunct1, THEN mp, OF e]
  note r = all [where body = body_empty_url, THEN conjunct2, THEN conjunct1, THEN mp,
      OF conjI [OF i e]]
  note m = all [where body = body_no_url, THEN conjunct2, THEN conjunct2, THEN mp, OF n]
  from h r m i n show ?thesis
    by simp
qed

text \<open>
  A body that has no \<^verbatim>\<open>videoUrl\<close>: no handler runs, so none of them raises its 400.
\<close>

theorem missing_url_counterexample:
  "fst (route youtube_metadata tools_ok body_no_url w0) = Rejected \<and>
   fst (route youtube_metadata tools_ok body_no_url w0) \<noteq>
     Raised (HTTPException 400 ''Video URL is required.'') \<and>
   fst (route youtube_to_mp3 tools_ok body_no_url w0) = Rejected \<and>
   fst (route youtube_to_mp3 tools_ok body_no_url w0) \<noteq>
     Raised (HTTPException 400 ''Video URL is required.'') \<and>
   fst (route youtube_to_video tools_ok body_no_url w0) = Rejected \<and>
   fst (route youtube_to_video tools_ok body_no_url w0) \<noteq>
     Raised (HTTPException 400 ''Video URL is required.'')"
  by (simp add: route_def MediaRequest_init_def body_no_url_def)

section \<open>The stages of the pipeline\<close>

text \<open>
  Claim C7: when its two children start, an audio conversion begins exactly two stages,
  the downloader writing to its standard output (\<^verbatim>\<open>-o -\<close>) and the transcoder reading
  from it with the fixed arguments and writing the output file. A video download begins
  one stage, the downloader writing the output file, and never a second one.
\<close>

theorem pipeline_stages:
  "(videoUrl request \<noteq> [] \<and>
    spawn_error t (ytdlp_command (videoUrl request) (format request)) (files w) = None \<and>
    spawn_error t (ffmpeg_command ''downloads/audio.mp3'') (files w) = None \<longrightarrow>
      started (snd (youtube_to_mp3 t request w)) =
        started w @
          [Popen [''yt-dlp'', videoUrl request, ''--format'', format request, ''-o'', ''-''] None,
           Popen [''ffmpeg'', ''-i'', ''pipe:0'', ''-vn'', ''-acodec'', ''libmp3lame'',
                  ''-ar'', ''44100'', ''-ab'', ''192k'', ''-f'', ''mp3'', ''downloads/audio.mp3'']
             (Some [''yt-dlp'', videoUrl request, ''--format'', format request, ''-o'', ''-''])]) \<and>
   (videoUrl request \<noteq> [] \<and>
    spawn_error t (video_command (videoUrl request) (format request) ''downloads/video.mp4'')
      (files w) = None \<longrightarrow>
      started (snd (youtube_to_video t request w)) =
        started w @
          [Run [''yt-dlp'', videoUrl request, ''--format'', format request,
                ''-o'', ''downloads/video.mp4'']]) \<and>
   length (started (snd (youtube_to_mp3 t request w))) \<le> length (started w) + 2 \<and>
   length (started (snd (youtube_to_video t request w))) \<le> length (started w) + 1"
proof (intro conjI impI)
  assume "videoUrl request \<noteq> [] \<and>
    spawn_error t (ytdlp_command (videoUrl request) (format request)) (files w) = None \<and>
    spawn_error t (ffmpeg_command ''downloads/audio.mp3'') (files w) = None"
  then show "started (snd (youtube_to_mp3 t request w)) =
        started w @
          [Popen [''yt-dlp'', videoUrl request, ''--format'', format request, ''-o'', ''-''] None,
           Popen [''ffmpeg'', ''-i'', ''pipe:0'', ''-vn'', ''-acodec'', ''libmp3lame'',
                  ''-ar'', ''44100'', ''-ab'', ''192k'', ''-f'', ''mp3'', ''downloads/audio.mp3'']
             (Some [''yt-dlp'', videoUrl request, ''--format'', format request, ''-o'', ''-''])]"
    by (simp add: youtube_to_mp3_started download_media_try_started)
      (simp add: ytdlp_command_def ffmpeg_command_def YT_DLP_PATH_def FFMPEG_PATH_def)
next
  assume "videoUrl request \<noteq> [] \<and>
    spawn_error t (video_command (videoUrl request) (format request) ''downloads/video.mp4'')
      (files w) = None"
  then show "started (snd (youtube_to_video t request w)) =
        started w @
          [Run [''yt-dlp'', videoUrl request, ''--format'', format request,
                ''-o'', ''downloads/video.mp4'']]"
    by (simp add: youtube_to_video_started youtube_to_video_try_started)
      (simp add: video_command_def YT_DLP_PATH_def)
next
  show "length (started (snd (youtube_to_mp3 t request w))) \<le> length (started w) + 2"
  proof (cases "videoUrl request = []")
    case True
    then show ?thesis by (simp add: youtube_to_mp3_def)
  next
    case False
    then show ?thesis
      by (simp add: youtube_to_mp3_started download_media_try_started split: option.splits)
  qed
next
  show "length (started (snd (youtube_to_video t request w))) \<le> length (started w) + 1"
  proof (cases "videoUrl request = []")
    case True
    then show ?thesis by (simp add: youtube_to_video_def)
  next
    case False
    then show ?thesis
      by (simp add: youtube_to_video_started youtube_to_video_try_started split: option.splits)
  qed
qed

theorem pipeline_stages_witness:
  "started (snd (youtube_to_mp3 tools_ok req_b w0)) =
     [Popen [''yt-dlp'', ''https://example.org/b'', ''--format'', ''best'', ''-o'', ''-''] None,
      Popen [''ffmpeg'', ''-i'', ''pipe:0'', ''-vn'', ''-acodec'', ''libmp3lame'',
             ''-ar'', ''44100'', ''-ab'', ''192k'', ''-f'', ''mp3'', ''downloads/audio.mp3'']
        (Some [''yt-dlp'', ''https://example.org/b'', ''--format'', ''best'', ''-o'', ''-''])] \<and>
   started (snd (youtube_to_video tools_ok req_b w0)) =
     [Run [''yt-dlp'', ''https://example.org/b'', ''--format'', ''best'',
           ''-o'', ''downloads/video.mp4'']]"
proof -
  have a: "videoUrl req_b \<noteq> [] \<and>
    spawn_error tools_ok (ytdlp_command (videoUrl req_b) (format req_b)) (files w0) = None \<and>
    spawn_error tools_ok (ffmpeg_command ''downloads/audio.mp3'') (files w0) = None"
    by (simp add: req_b_def tools_ok_def)
  have v: "videoUrl req_b \<noteq> [] \<and>
    spawn_error tools_ok (video_command (videoUrl req_b) (format req_b) ''downloads/video.mp4'')
      (files w0) = None"
    by (simp add: req_b_def tools_ok_def)
  have s: "started w0 = []" "videoUrl req_b = ''https://example.org/b''" "format req_b = ''best''"
    by (simp_all add: w0_def req_b_def)
  note pa = pipeline_stages [THEN conjunct1, THEN mp, OF a]
  note pv = pipeline_stages [THEN conjunct2, THEN conjunct1, THEN mp, OF v]
  from pa pv s show ?thesis
    by simp
qed

section \<open>The default format\<close>

text \<open>
  Claim C10: a request body with a \<^verbatim>\<open>videoUrl\<close> and no \<^verbatim>\<open>format\<close> becomes a request whose
  format is \<^verbatim>\<open>bestaudio/best\<close>, and the video endpoint passes that selector to the
  downloader it starts.
\<close>

theorem video_default_format:
  assumes "body ''videoUrl'' = Some (VStr url)" and "body ''format'' = None"
  shows "MediaRequest_init t body = Some \<lparr>videoUrl = url, format = ''bestaudio/best''\<rparr> \<and>
    (url \<noteq> [] \<and>
     spawn_error t [''yt-dlp'', url, ''--format'', ''bestaudio/best'', ''-o'', ''downloads/video.mp4'']
       (files w) = None \<longrightarrow>
       started (snd (route youtube_to_video t body w)) =
         started w @
           [Run [''yt-dlp'', url, ''--format'', ''bestaudio/best'', ''-o'', ''downloads/video.mp4'']])"
proof -
  let ?r = "\<lparr>videoUrl = url, format = ''bestaudio/best''\<rparr>"
  have i: "MediaRequest_init t body = Some ?r"
    using assms by (simp add: MediaRequest_init_def pydantic_str_def)
  have c: "video_command url ''bestaudio/best'' ''downloads/video.mp4'' =
      [''yt-dlp'', url, ''--format'', ''bestaudio/best'', ''-o'', ''downloads/video.mp4'']"
    by (simp add: video_command_def YT_DLP_PATH_def)
  have "started (snd (route youtube_to_video t body w)) =
      started w @
        [Run [''yt-dlp'', url, ''--format'', ''bestaudio/best'', ''-o'', ''downloads/video.mp4'']]"
    if "url \<noteq> []" and "spawn_error t
      [''yt-dlp'', url, ''--format'', ''bestaudio/best'', ''-o'', ''downloads/video.mp4'']
      (files w) = None"
    using that c
    by (simp add: route_Some [OF i] youtube_to_video_started youtube_to_video_try_started)
  with i show ?thesis
    by blast
qed

theorem video_default_format_witness:
  "MediaRequest_init tools_ok body_a = Some req_a \<and>
   started (snd (route youtube_to_video tools_ok body_a w0)) =
     [Run [''yt-dlp'', ''https://example.org/a'', ''--format'', ''bestaudio/best'',
           ''-o'', ''downloads/video.mp4'']]"
proof -
  have u: "body_a ''videoUrl'' = Some (VStr ''https://example.org/a'')"
    by (simp add: body_a_def)
  have f: "body_a ''format'' = None"
    by (simp add: body_a_def)
  have g: "''https://example.org/a'' \<noteq> [] \<and>
     spawn_error tools_ok
       [''yt-dlp'', ''https://example.org/a'', ''--format'', ''bestaudio/best'',
        ''-o'', ''downloads/video.mp4'']
       (files w0) = None"
    by (simp add: tools_ok_def)
  note d = video_default_format [OF u f, of tools_ok w0]
  from d g show ?thesis
    by (simp add: req_a_def w0_def)
qed

section \<open>Metadata\<close>

text \<open>
  Claim C6, as the code has it, for a fetch whose extractor returns the dictionary \<open>info\<close>.
  \<^item> When the keys \<^verbatim>\<open>title\<close>, \<^verbatim>\<open>uploader\<close>, \<^verbatim>\<open>duration\<close>, \<^verbatim>\<open>upload_date\<close> and \<^verbatim>\<open>thumbnails\<close>
    are present with values of the declared types, and each of \<^verbatim>\<open>view_count\<close>,
    \<^verbatim>\<open>like_count\<close> and \<^verbatim>\<open>description\<close> is missing or present with a value of the declared
    type, the handler returns a \<^verbatim>\<open>VideoMetadata\<close> with exactly the values present, and
    with 0, 0 and the empty string for the missing ones.
  \<^item> When one of \<^verbatim>\<open>title\<close>, \<^verbatim>\<open>uploader\<close>, \<^verbatim>\<open>duration\<close>, \<^verbatim>\<open>upload_date\<close>, \<^verbatim>\<open>thumbnails\<close> is
    missing, the handler raises
    \<^verbatim>\<open>HTTPException(500, "Error fetching video details: '<key>'")\<close> for the first missing
    key, whether or not an optional key is missing too.
\<close>

theorem metadata_fields:
  assumes "videoUrl video \<noteq> []" and "extract_info t (videoUrl video) = Inr info"
  shows
    "(info ''title'' = Some (VStr ti) \<and> info ''uploader'' = Some (VStr au) \<and>
      info ''duration'' = Some (VInt le) \<and> info ''upload_date'' = Some (VStr ud) \<and>
      info ''thumbnails'' = Some (VList th) \<and>
      (info ''view_count'' = None \<or> info ''view_count'' = Some (VInt vc)) \<and>
      (info ''like_count'' = None \<or> info ''like_count'' = Some (VInt li)) \<and>
      (info ''description'' = None \<or> info ''description'' = Some (VStr de)) \<longrightarrow>
        fst (youtube_metadata t video w) =
          Inr \<lparr>title = ti, author = au, length_seconds = le,
               view_count = (if info ''view_count'' = None then 0 else vc),
               upload_date = ud,
               likes = (if info ''like_count'' = None then 0 else li),
               description = (if info ''description'' = None then [] else de),
               thumbnails = th\<rparr>) \<and>
     (info ''title'' = None \<longrightarrow>
        fst (youtube_metadata t video w) =
          Inl (HTTPException 500 (''Error fetching video details: '' @ repr_str ''title''))) \<and>
     (info ''title'' \<noteq> None \<and> info ''uploader'' = None \<longrightarrow>
        fst (youtube_metadata t video w) =
          Inl (HTTPException 500 (''Error fetching video details: '' @ repr_str ''uploader''))) \<and>
     (info ''title'' \<noteq> None \<and> info ''uploader'' \<noteq> None \<and> info ''duration'' = None \<longrightarrow>
        fst (youtube_metadata t video w) =
          Inl (HTTPException 500 (''Error fetching video details: '' @ repr_str ''duration''))) \<and>
     (info ''title'' \<noteq> None \<and> info ''uploader'' \<noteq> None \<and> info ''duration'' \<noteq> None \<and>
      info ''upload_date'' = None \<longrightarrow>
        fst (youtube_metadata t video w) =
          Inl (HTTPException 500 (''Error fetching video details: '' @ repr_str ''upload_date''))) \<and>
     (info ''title'' \<noteq> None \<and> info ''uploader'' \<noteq> None \<and> info ''duration'' \<noteq> None \<and>
      info ''upload_date'' \<noteq> None \<and> info ''thumbnails'' = None \<longrightarrow>
        fst (youtube_metadata t video w) =
          Inl (HTTPException 500 (''Error fetching video details: '' @ repr_str ''thumbnails'')))"
proof -
  have m: "fst (youtube_metadata t video w) =
      (case youtube_metadata_try t (videoUrl video) of
         Inl e \<Rightarrow> Inl (HTTPException 500 (''Error fetching video details: '' @ str_exn t e))
       | Inr metadata \<Rightarrow> Inr metadata)"
    using assms(1) by (simp add: youtube_metadata_def Let_def split: sum.splits)
  show ?thesis
    unfolding m
    using assms(2)
    by (auto simp: youtube_metadata_try_def dict_getitem_def dict_get_def
        VideoMetadata_init_def pydantic_str_def pydantic_int_def pydantic_list_def)
qed

theorem metadata_fields_witness:
  "fst (youtube_metadata tools_ok req_a w0) =
     Inr \<lparr>title = ''Song'', author = ''Band'', length_seconds = 212, view_count = 1000,
          upload_date = ''20200101'', likes = 50, description = ''Live'',
          thumbnails = [VStr ''t.jpg'']\<rparr> \<and>
   fst (youtube_metadata tools_ok req_bare w0) =
     Inr \<lparr>title = ''Song'', author = ''Band'', length_seconds = 212, view_count = 0,
          upload_date = ''20200101'', likes = 0, description = [],
          thumbnails = [VStr ''t.jpg'']\<rparr> \<and>
   fst (youtube_metadata tools_ok req_untitled w0) =
     Inl (HTTPException 500 (''Error fetching video details: '' @ repr_str ''title'')) \<and>
   fst (youtube_metadata tools_ok req_nothumbs w0) =
     Inl (HTTPException 500 (''Error fetching video details: '' @ repr_str ''thumbnails''))"
proof -
  have a: "videoUrl req_a \<noteq> []" "extract_info tools_ok (videoUrl req_a) = Inr info_full"
    by (simp_all add: req_a_def tools_ok_def)
  have b: "videoUrl req_bare \<noteq> []" "extract_info tools_ok (videoUrl req_bare) = Inr info_required"
    by (simp_all add: req_bare_def tools_ok_def)
  have u: "videoUrl req_untitled \<noteq> []"
    "extract_info tools_ok (videoUrl req_untitled) = Inr info_untitled"
    by (simp_all add: req_untitled_def tools_ok_def)
  have fa: "info_full ''title'' = Some (VStr ''Song'') \<and>
      info_full ''uploader'' = Some (VStr ''Band'') \<and>
      info_full ''duration'' = Some (VInt 212) \<and>
      info_full ''upload_date'' = Some (VStr ''20200101'') \<and>
      info_full ''thumbnails'' = Some (VList [VStr ''t.jpg'']) \<and>
      (info_full ''view_count'' = None \<or> info_full ''view_count'' = Some (VInt 1000)) \<and>
      (info_full ''like_count'' = None \<or> info_full ''like_count'' = Some (VInt 50)) \<and>
      (info_full ''description'' = None \<or> info_full ''description'' = Some (VStr ''Live''))"
    by (simp add: info_full_def)
  have fb: "info_required ''title'' = Some (VStr ''Song'') \<and>
      info_required ''uploader'' = Some (VStr ''Band'') \<and>
      info_required ''duration'' = Some (VInt 212) \<and>
      info_required ''upload_date'' = Some (VStr ''20200101'') \<and>
      info_required ''thumbnails'' = Some (VList [VStr ''t.jpg'']) \<and>
      (info_required ''view_count'' = None \<or> info_required ''view_count'' = Some (VInt 0)) \<and>
      (info_required ''like_count'' = None \<or> info_required ''like_count'' = Some (VInt 0)) \<and>
      (info_required ''description'' = None \<or> info_required ''description'' = Some (VStr []))"
    by (simp add: info_required_def)
  have fu: "info_untitled ''title'' = None"
    by (simp add: info_untitled_def)
  have n: "videoUrl req_nothumbs \<noteq> []"
    "extract_info tools_ok (videoUrl req_nothumbs) = Inr info_no_thumbnails"
    by (simp_all add: req_nothumbs_def tools_ok_def)
  have fn: "info_no_thumbnails ''title'' \<noteq> None \<and> info_no_thumbnails ''uploader'' \<noteq> None \<and>
      info_no_thumbnails ''duration'' \<noteq> None \<and> info_no_thumbnails ''upload_date'' \<noteq> None \<and>
      info_no_thumbnails ''thumbnails'' = None"
    by (simp add: info_no_thumbnails_def)
  have na: "info_full ''view_count'' \<noteq> None" "info_full ''like_count'' \<noteq> None"
    "info_full ''description'' \<noteq> None"
    by (simp_all add: info_full_def)
  have nb: "info_required ''view_count'' = None" "info_required ''like_count'' = None"
    "info_required ''description'' = None"
    by (simp_all add: info_required_def)
  note ra = metadata_fields [OF a, THEN conjunct1, THEN mp, OF fa, of w0]
  note rb = metadata_fields [OF b, THEN conjunct1, THEN mp, OF fb, of w0]
  note ru = metadata_fields [OF u, THEN conjunct2, THEN conjunct1, THEN mp, OF fu, of w0]
  note rn = metadata_fields [OF n, THEN conjunct2, THEN conjunct2, THEN conjunct2,
      THEN conjunct2, THEN conjunct2, THEN mp, OF fn, of w0]
  from ra rb ru rn na nb show ?thesis
    by simp
qed

text \<open>
  A dictionary with \<^verbatim>\<open>title\<close>, \<^verbatim>\<open>uploader\<close>, \<^verbatim>\<open>duration\<close> and \<^verbatim>\<open>upload_date\<close>, without the
  optional keys and without \<^verbatim>\<open>thumbnails\<close>: the fetch fails instead of using the defaults.
  A dictionary with every key, whose \<^verbatim>\<open>view_count\<close> is \<^verbatim>\<open>None\<close>: the fetch fails instead of
  returning the values.
\<close>

theorem metadata_fields_counterexample:
  "info_no_thumbnails ''title'' = Some (VStr ''Song'') \<and>
   info_no_thumbnails ''uploader'' = Some (VStr ''Band'') \<and>
   info_no_thumbnails ''duration'' = Some (VInt 212) \<and>
   info_no_thumbnails ''upload_date'' = Some (VStr ''20200101'') \<and>
   info_no_thumbnails ''view_count'' = None \<and>
   fst (youtube_metadata tools_ok req_nothumbs w0) =
     Inl (HTTPException 500 (''Error fetching video details: '' @ repr_str ''thumbnails'')) \<and>
   info_none_views ''view_count'' = Some VNone \<and>
   fst (youtube_metadata tools_ok req_noviews w0) =
     Inl (HTTPException 500
       (''Error fetching video details: '' @ ''validation error for VideoMetadata''))"
  by (simp add: youtube_metadata_def youtube_metadata_try_def dict_getitem_def dict_get_def
      VideoMetadata_init_def pydantic_str_def pydantic_int_def pydantic_list_def
      info_no_thumbnails_def info_none_views_def req_nothumbs_def req_noviews_def
      tools_ok_def Let_def)

section \<open>The response of a successful conversion\<close>

text \<open>
  Claim C8, as the code has it, for a conversion request whose \<^verbatim>\<open>try\<close> block reaches the
  \<^verbatim>\<open>return FileResponse(...)\<close>.
  \<^item> Whenever the handler returns a response, the \<^verbatim>\<open>finally\<close> clause has unlinked the output
    file before: the path the \<^verbatim>\<open>FileResponse\<close> names does not exist in the world the
    handler leaves, and it was removed once.
  \<^item> That is what happens when neither \<^verbatim>\<open>exists\<close> nor \<^verbatim>\<open>unlink\<close> raises in the \<^verbatim>\<open>finally\<close>
    clause.
  \<^item> When \<^verbatim>\<open>exists\<close> or \<^verbatim>\<open>unlink\<close> raises there, the handler raises that exception in place
    of the response, and the file is left where it is.
\<close>

theorem returned_response_file_removed:
  "(youtube_to_mp3 t request w = (Inr resp, w') \<longrightarrow>
      resp = FileResponse ''downloads/audio.mp3'' ''audio/mpeg'' ''audio.mp3'' \<and>
      files w' ''downloads/audio.mp3'' = None \<and>
      unlinked w' = unlinked w @ [''downloads/audio.mp3'']) \<and>
   (youtube_to_video t request w = (Inr resp, w') \<longrightarrow>
      resp = FileResponse ''downloads/video.mp4'' ''video/mp4'' ''video.mp4'' \<and>
      files w' ''downloads/video.mp4'' = None \<and>
      unlinked w' = unlinked w @ [''downloads/video.mp4'']) \<and>
   (videoUrl request \<noteq> [] \<and>
    fst (youtube_to_mp3_try t (videoUrl request) (format request) ''downloads/audio.mp3'' w) =
      Inr resp \<and>
    exists_error t In_finally ''downloads/audio.mp3''
      (files (snd (youtube_to_mp3_try t (videoUrl request) (format request)
        ''downloads/audio.mp3'' w))) = None \<and>
    unlink_error t ''downloads/audio.mp3''
      (files (snd (youtube_to_mp3_try t (videoUrl request) (format request)
        ''downloads/audio.mp3'' w))) = None \<longrightarrow>
      fst (youtube_to_mp3 t request w) = Inr resp \<and>
      files (snd (youtube_to_mp3 t request w)) ''downloads/audio.mp3'' = None \<and>
      unlinked (snd (youtube_to_mp3 t request w)) = unlinked w @ [''downloads/audio.mp3'']) \<and>
   (videoUrl request \<noteq> [] \<and>
    fst (youtube_to_video_try t (videoUrl request) (format request) ''downloads/video.mp4'' w) =
      Inr resp \<and>
    exists_error t In_finally ''downloads/video.mp4''
      (files (snd (youtube_to_video_try t (videoUrl request) (format request)
        ''downloads/video.mp4'' w))) = None \<and>
    unlink_error t ''downloads/video.mp4''
      (files (snd (youtube_to_video_try t (videoUrl request) (format request)
        ''downloads/video.mp4'' w))) = None \<longrightarrow>
      fst (youtube_to_video t request w) = Inr resp \<and>
      files (snd (youtube_to_video t request w)) ''downloads/video.mp4'' = None \<and>
      unlinked (snd (youtube_to_video t request w)) = unlinked w @ [''downloads/video.mp4'']) \<and>
   (videoUrl request \<noteq> [] \<and>
    fst (youtube_to_mp3_try t (videoUrl request) (format request) ''downloads/audio.mp3'' w) =
      Inr resp \<and>
    (exists_error t In_finally ''downloads/audio.mp3''
       (files (snd (youtube_to_mp3_try t (videoUrl request) (format request)
         ''downloads/audio.mp3'' w))) = Some msg \<or>
     exists_error t In_finally ''downloads/audio.mp3''
       (files (snd (youtube_to_mp3_try t (videoUrl request) (format request)
         ''downloads/audio.mp3'' w))) = None \<and>
     unlink_error t ''downloads/audio.mp3''
       (files (snd (youtube_to_mp3_try t (videoUrl request) (format request)
         ''downloads/audio.mp3'' w))) = Some msg) \<longrightarrow>
      fst (youtube_to_mp3 t request w) = Inl (Exception msg) \<and>
      files (snd (youtube_to_mp3 t request w)) ''downloads/audio.mp3'' \<noteq> None \<and>
      unlinked (snd (youtube_to_mp3 t request w)) = unlinked w) \<and>
   (videoUrl request \<noteq> [] \<and>
    fst (youtube_to_video_try t (videoUrl request) (format request) ''downloads/video.mp4'' w) =
      Inr resp \<and>
    (exists_error t In_finally ''downloads/video.mp4''
       (files (snd (youtube_to_video_try t (videoUrl request) (format request)
         ''downloads/video.mp4'' w))) = Some msg \<or>
     exists_error t In_finally ''downloads/video.mp4''
       (files (snd (youtube_to_video_try t (videoUrl request) (format request)
         ''downloads/video.mp4'' w))) = None \<and>
     unlink_error t ''downloads/video.mp4''
       (files (snd (youtube_to_video_try t (videoUrl request) (format request)
         ''downloads/video.mp4'' w))) = Some msg) \<longrightarrow>
      fst (youtube_to_video t request w) = Inl (Exception msg) \<and>
      files (snd (youtube_to_video t request w)) ''downloads/video.mp4'' \<noteq> None \<and>
      unlinked (snd (youtube_to_video t request w)) = unlinked w)"
proof -
  let ?pa = "''downloads/audio.mp3''"
  let ?pv = "''downloads/video.mp4''"
  let ?a = "youtube_to_mp3_try t (videoUrl request) (format request) ?pa w"
  let ?v = "youtube_to_video_try t (videoUrl request) (format request) ?pv w"
  have exa: "files (snd ?a) ?pa \<noteq> None" if "fst ?a = Inr resp"
    using youtube_to_mp3_try_Inr [of t "videoUrl request" "format request" ?pa w resp "snd ?a"]
      that by (simp add: prod_eq_iff)
  have exv: "files (snd ?v) ?pv \<noteq> None" if "fst ?v = Inr resp"
    using youtube_to_video_try_Inr [of t "videoUrl request" "format request" ?pv w resp "snd ?v"]
      that by (simp add: prod_eq_iff)
  note ma = handler_fst handler_files handler_unlinked youtube_to_mp3_try_unlinked
  note mv = handler_fst handler_files handler_unlinked youtube_to_video_try_unlinked
  have 3: "videoUrl request \<noteq> [] \<and> fst ?a = Inr resp \<and>
      exists_error t In_finally ?pa (files (snd ?a)) = None \<and>
      unlink_error t ?pa (files (snd ?a)) = None \<longrightarrow>
        fst (youtube_to_mp3 t request w) = Inr resp \<and>
        files (snd (youtube_to_mp3 t request w)) ?pa = None \<and>
        unlinked (snd (youtube_to_mp3 t request w)) = unlinked w @ [?pa]"
    using exa by (auto simp: youtube_to_mp3_unfold ma)
  have 4: "videoUrl request \<noteq> [] \<and> fst ?v = Inr resp \<and>
      exists_error t In_finally ?pv (files (snd ?v)) = None \<and>
      unlink_error t ?pv (files (snd ?v)) = None \<longrightarrow>
        fst (youtube_to_video t request w) = Inr resp \<and>
        files (snd (youtube_to_video t request w)) ?pv = None \<and>
        unlinked (snd (youtube_to_video t request w)) = unlinked w @ [?pv]"
    using exv by (auto simp: youtube_to_video_unfold mv)
  have 5: "videoUrl request \<noteq> [] \<and> fst ?a = Inr resp \<and>
      (exists_error t In_finally ?pa (files (snd ?a)) = Some msg \<or>
       exists_error t In_finally ?pa (files (snd ?a)) = None \<and>
       unlink_error t ?pa (files (snd ?a)) = Some msg) \<longrightarrow>
        fst (youtube_to_mp3 t request w) = Inl (Exception msg) \<and>
        files (snd (youtube_to_mp3 t request w)) ?pa \<noteq> None \<and>
        unlinked (snd (youtube_to_mp3 t request w)) = unlinked w"
    using exa by (auto simp: youtube_to_mp3_unfold ma)
  have 6: "videoUrl request \<noteq> [] \<and> fst ?v = Inr resp \<and>
      (exists_error t In_finally ?pv (files (snd ?v)) = Some msg \<or>
       exists_error t In_finally ?pv (files (snd ?v)) = None \<and>
       unlink_error t ?pv (files (snd ?v)) = Some msg) \<longrightarrow>
        fst (youtube_to_video t request w) = Inl (Exception msg) \<and>
        files (snd (youtube_to_video t request w)) ?pv \<noteq> None \<and>
        unlinked (snd (youtube_to_video t request w)) = unlinked w"
    using exv by (auto simp: youtube_to_video_unfold mv)
  have 1: "youtube_to_mp3 t request w = (Inr resp, w') \<longrightarrow>
      resp = FileResponse ?pa ''audio/mpeg'' ''audio.mp3'' \<and>
      files w' ?pa = None \<and> unlinked w' = unlinked w @ [?pa]"
  proof
    assume h: "youtube_to_mp3 t request w = (Inr resp, w')"
    then have f: "fst (youtube_to_mp3 t request w) = Inr resp"
      and s: "snd (youtube_to_mp3 t request w) = w'"
      by simp_all
    from h have ne: "videoUrl request \<noteq> []"
      by (auto simp: youtube_to_mp3_def)
    from f have c: "fst ?a = Inr resp \<and> exists_error t In_finally ?pa (files (snd ?a)) = None \<and>
        (files (snd ?a) ?pa = None \<or> unlink_error t ?pa (files (snd ?a)) = None)"
      unfolding youtube_to_mp3_unfold [OF ne] handler_fst
      by (cases "fst ?a") (auto split: option.splits if_splits)
    with exa have "unlink_error t ?pa (files (snd ?a)) = None"
      by auto
    with 3 ne c have "files (snd (youtube_to_mp3 t request w)) ?pa = None \<and>
        unlinked (snd (youtube_to_mp3 t request w)) = unlinked w @ [?pa]"
      by simp
    with s youtube_to_mp3_Inr [OF f]
    show "resp = FileResponse ?pa ''audio/mpeg'' ''audio.mp3'' \<and>
        files w' ?pa = None \<and> unlinked w' = unlinked w @ [?pa]"
      by simp
  qed
  have 2: "youtube_to_video t request w = (Inr resp, w') \<longrightarrow>
      resp = FileResponse ?pv ''video/mp4'' ''video.mp4'' \<and>
      files w' ?pv = None \<and> unlinked w' = unlinked w @ [?pv]"
  proof
    assume h: "youtube_to_video t request w = (Inr resp, w')"
    then have f: "fst (youtube_to_video t request w) = Inr resp"
      and s: "snd (youtube_to_video t request w) = w'"
      by simp_all
    from h have ne: "videoUrl request \<noteq> []"
      by (auto simp: youtube_to_video_def)
    from f have c: "fst ?v = Inr resp \<and> exists_error t In_finally ?pv (files (snd ?v)) = None \<and>
        (files (snd ?v) ?pv = None \<or> unlink_error t ?pv (files (snd ?v)) = None)"
      unfolding youtube_to_video_unfold [OF ne] handler_fst
      by (cases "fst ?v") (auto split: option.splits if_splits)
    with exv have "unlink_error t ?pv (files (snd ?v)) = None"
      by auto
    with 4 ne c have "files (snd (youtube_to_video t request w)) ?pv = None \<and>
        unlinked (snd (youtube_to_video t request w)) = unlinked w @ [?pv]"
      by simp
    with s youtube_to_video_Inr [OF f]
    show "resp = FileResponse ?pv ''video/mp4'' ''video.mp4'' \<and>
        files w' ?pv = None \<and> unlinked w' = unlinked w @ [?pv]"
      by simp
  qed
  show ?thesis
    by (rule conjI [OF 1 conjI [OF 2 conjI [OF 3 conjI [OF 4 conjI [OF 5 6]]]]])
qed

theorem returned_response_file_removed_witness:
  "fst (youtube_to_mp3 tools_ok req_a w0) =
     Inr (FileResponse ''downloads/audio.mp3'' ''audio/mpeg'' ''audio.mp3'') \<and>
   files (snd (youtube_to_mp3 tools_ok req_a w0)) ''downloads/audio.mp3'' = None \<and>
   unlinked (snd (youtube_to_mp3 tools_ok req_a w0)) = [''downloads/audio.mp3''] \<and>
   fst (youtube_to_video tools_ok req_a w0) =
     Inr (FileResponse ''downloads/video.mp4'' ''video/mp4'' ''video.mp4'') \<and>
   files (snd (youtube_to_video tools_ok req_a w0)) ''downloads/video.mp4'' = None \<and>
   unlinked (snd (youtube_to_video tools_ok req_a w0)) = [''downloads/video.mp4''] \<and>
   fst (youtube_to_mp3 (deny_unlink tools_ok) req_a w0) =
     Inl (Exception (''[Errno 13] Permission denied: '' @ repr_str ''downloads/audio.mp3'')) \<and>
   files (snd (youtube_to_mp3 (deny_unlink tools_ok) req_a w0)) ''downloads/audio.mp3'' \<noteq> None \<and>
   unlinked (snd (youtube_to_mp3 (deny_unlink tools_ok) req_a w0)) = [] \<and>
   fst (youtube_to_video (deny_unlink tools_ok) req_a w0) =
     Inl (Exception (''[Errno 13] Permission denied: '' @ repr_str ''downloads/video.mp4'')) \<and>
   files (snd (youtube_to_video (deny_unlink tools_ok) req_a w0)) ''downloads/video.mp4'' \<noteq> None \<and>
   unlinked (snd (youtube_to_video (deny_unlink tools_ok) req_a w0)) = []"
proof -
  let ?a = "FileResponse ''downloads/audio.mp3'' ''audio/mpeg'' ''audio.mp3''"
  let ?v = "FileResponse ''downloads/video.mp4'' ''video/mp4'' ''video.mp4''"
  note try_defs = youtube_to_mp3_try_fst youtube_to_mp3_try_files download_media_fst
    download_media_files download_media_try_fst download_media_try_files
    youtube_to_video_try_fst youtube_to_video_try_files
    tools_ok_def deny_unlink_def w0_def ffmpeg_command_def video_command_def
  have ne: "videoUrl req_a \<noteq> []"
    by (simp add: req_a_def)
  have u0: "unlinked w0 = []"
    by (simp add: w0_def)
  have ha: "youtube_to_mp3 tools_ok req_a w0 = (Inr ?a, snd (youtube_to_mp3 tools_ok req_a w0))"
    using mp3_ok_a by (simp add: prod_eq_iff)
  have hv: "youtube_to_video tools_ok req_a w0 = (Inr ?v, snd (youtube_to_video tools_ok req_a w0))"
    using video_ok_a by (simp add: prod_eq_iff)
  have ok_a: "videoUrl req_a \<noteq> [] \<and>
      fst (youtube_to_mp3_try tools_ok (videoUrl req_a) (format req_a)
        ''downloads/audio.mp3'' w0) = Inr ?a \<and>
      exists_error tools_ok In_finally ''downloads/audio.mp3''
        (files (snd (youtube_to_mp3_try tools_ok (videoUrl req_a) (format req_a)
          ''downloads/audio.mp3'' w0))) = None \<and>
      unlink_error tools_ok ''downloads/audio.mp3''
        (files (snd (youtube_to_mp3_try tools_ok (videoUrl req_a) (format req_a)
          ''downloads/audio.mp3'' w0))) = None"
    using ne by (simp add: try_defs)
  have ok_v: "videoUrl req_a \<noteq> [] \<and>
      fst (youtube_to_video_try tools_ok (videoUrl req_a) (format req_a)
        ''downloads/video.mp4'' w0) = Inr ?v \<and>
      exists_error tools_ok In_finally ''downloads/video.mp4''
        (files (snd (youtube_to_video_try tools_ok (videoUrl req_a) (format req_a)
          ''downloads/video.mp4'' w0))) = None \<and>
      unlink_error tools_ok ''downloads/video.mp4''
        (files (snd (youtube_to_video_try tools_ok (videoUrl req_a) (format req_a)
          ''downloads/video.mp4'' w0))) = None"
    using ne by (simp add: try_defs)
  have bad_a: "videoUrl req_a \<noteq> [] \<and>
      fst (youtube_to_mp3_try (deny_unlink tools_ok) (videoUrl req_a) (format req_a)
        ''downloads/audio.mp3'' w0) = Inr ?a \<and>
      (exists_error (deny_unlink tools_ok) In_finally ''downloads/audio.mp3''
         (files (snd (youtube_to_mp3_try (deny_unlink tools_ok) (videoUrl req_a) (format req_a)
           ''downloads/audio.mp3'' w0))) = Some (''[Errno 13] Permission denied: '' @ repr_str ''downloads/audio.mp3'') \<or>
       exists_error (deny_unlink tools_ok) In_finally ''downloads/audio.mp3''
         (files (snd (youtube_to_mp3_try (deny_unlink tools_ok) (videoUrl req_a) (format req_a)
           ''downloads/audio.mp3'' w0))) = None \<and>
       unlink_error (deny_unlink tools_ok) ''downloads/audio.mp3''
         (files (snd (youtube_to_mp3_try (deny_unlink tools_ok) (videoUrl req_a) (format req_a)
           ''downloads/audio.mp3'' w0))) = Some (''[Errno 13] Permission denied: '' @ repr_str ''downloads/audio.mp3''))"
    using ne by (simp add: try_defs)
  have bad_v: "videoUrl req_a \<noteq> [] \<and>
      fst (youtube_to_video_try (deny_unlink tools_ok) (videoUrl req_a) (format req_a)
        ''downloads/video.mp4'' w0) = Inr ?v \<and>
      (exists_error (deny_unlink tools_ok) In_finally ''downloads/video.mp4''
         (files (snd (youtube_to_video_try (deny_unlink tools_ok) (videoUrl req_a) (format req_a)
           ''downloads/video.mp4'' w0))) = Some (''[Errno 13] Permission denied: '' @ repr_str ''downloads/video.mp4'') \<or>
       exists_error (deny_unlink tools_ok) In_finally ''downloads/video.mp4''
         (files (snd (youtube_to_video_try (deny_unlink tools_ok) (videoUrl req_a) (format req_a)
           ''downloads/video.mp4'' w0))) = None \<and>
       unlink_error (deny_unlink tools_ok) ''downloads/video.mp4''
         (files (snd (youtube_to_video_try (deny_unlink tools_ok) (videoUrl req_a) (format req_a)
           ''downloads/video.mp4'' w0))) = Some (''[Errno 13] Permission denied: '' @ repr_str ''downloads/video.mp4''))"
    using ne by (simp add: try_defs)
  note r1 = returned_response_file_removed [THEN conjunct1, THEN mp, OF ha]
  note r2 = returned_response_file_removed [THEN conjunct2, THEN conjunct1, THEN mp, OF hv]
  note r3 = returned_response_file_removed [THEN conjunct2, THEN conjunct2, THEN conjunct1,
      THEN mp, OF ok_a]
  note r4 = returned_response_file_removed [THEN conjunct2, THEN conjunct2, THEN conjunct2,
      THEN conjunct1, THEN mp, OF ok_v]
  note r5 = returned_response_file_removed [THEN conjunct2, THEN conjunct2, THEN conjunct2,
      THEN conjunct2, THEN conjunct1, THEN mp, OF bad_a]
  note r6 = returned_response_file_removed [THEN conjunct2, THEN conjunct2, THEN conjunct2,
      THEN conjunct2, THEN conjunct2, THEN mp, OF bad_v]
  from r1 r2 r3 r4 r5 r6 u0 show ?thesis
    by simp
qed

text \<open>
  The video download reaches the \<^verbatim>\<open>return\<close> of its \<^verbatim>\<open>try\<close> block and \<^verbatim>\<open>unlink\<close> is refused:
  the output file is not unlinked, it is still there when the handler is left, and the
  handler raises instead of returning the response.
\<close>

theorem returned_response_counterexample:
  "fst (youtube_to_video_try (deny_unlink tools_ok) (videoUrl req_a) (format req_a)
     ''downloads/video.mp4'' w0) =
     Inr (FileResponse ''downloads/video.mp4'' ''video/mp4'' ''video.mp4'') \<and>
   files (snd (youtube_to_video (deny_unlink tools_ok) req_a w0)) ''downloads/video.mp4'' =
     Some 4096 \<and>
   unlinked (snd (youtube_to_video (deny_unlink tools_ok) req_a w0)) = [] \<and>
   fst (youtube_to_video (deny_unlink tools_ok) req_a w0) =
     Inl (Exception (''[Errno 13] Permission denied: '' @ repr_str ''downloads/video.mp4''))"
  by (simp add: handler_defs example_defs)

section \<open>When a conversion succeeds\<close>

text \<open>
  Claim C1, as the code has it, for a request that passes validation.
  \<^item> The video handler returns the file response exactly when the downloader starts, its
    captured output decodes, it exits with status zero, the output file exists afterwards
    (its size is not read), and neither \<^verbatim>\<open>exists\<close> nor \<^verbatim>\<open>unlink\<close> raises.
  \<^item> The audio handler returns the file response only when both children start, the
    transcoder exits with status zero, the output file exists afterwards and neither
    \<^verbatim>\<open>exists\<close> nor \<^verbatim>\<open>unlink\<close> raises; it does return it when, in addition, the downloader
    exits with status zero.
  \<^item> When the transcoder exits with another status, its standard error decodes as UTF-8
    and the \<^verbatim>\<open>finally\<close> clause does not raise, the handler raises an \<^verbatim>\<open>HTTPException\<close> with
    status 500 whose detail is \<^verbatim>\<open>"Error processing the request: "\<close> followed by \<^verbatim>\<open>str\<close> of
    the \<^verbatim>\<open>HTTPException\<close> that \<^verbatim>\<open>download_media\<close> raised with the detail
    \<^verbatim>\<open>"Error processing video: FFmpeg error: "\<close> and the decoded text.
  \<^item> When the output of the video downloader decodes, it exits with another status and
    the \<^verbatim>\<open>finally\<close> clause does not raise, the handler raises an \<^verbatim>\<open>HTTPException\<close> with
    status 500 whose detail is \<^verbatim>\<open>"Error processing the request: yt-dlp error: "\<close> followed
    by the captured standard-error text.
\<close>

theorem conversion_success_condition:
  assumes "videoUrl request \<noteq> []"
  shows
    "(fst (youtube_to_mp3 t request w) =
        Inr (FileResponse ''downloads/audio.mp3'' ''audio/mpeg'' ''audio.mp3'') \<longrightarrow>
      spawn_error t (ytdlp_command (videoUrl request) (format request)) (files w) = None \<and>
      spawn_error t (ffmpeg_command ''downloads/audio.mp3'') (files w) = None \<and>
      ffmpeg_returncode (pipe_exit t (ytdlp_command (videoUrl request) (format request))
        (ffmpeg_command ''downloads/audio.mp3'') (files w)) = 0 \<and>
      exists_error t In_try ''downloads/audio.mp3''
        (pipe_files (pipe_exit t (ytdlp_command (videoUrl request) (format request))
          (ffmpeg_command ''downloads/audio.mp3'') (files w))) = None \<and>
      pipe_files (pipe_exit t (ytdlp_command (videoUrl request) (format request))
        (ffmpeg_command ''downloads/audio.mp3'') (files w)) ''downloads/audio.mp3'' \<noteq> None \<and>
      exists_error t In_finally ''downloads/audio.mp3''
        (pipe_files (pipe_exit t (ytdlp_command (videoUrl request) (format request))
          (ffmpeg_command ''downloads/audio.mp3'') (files w))) = None \<and>
      unlink_error t ''downloads/audio.mp3''
        (pipe_files (pipe_exit t (ytdlp_command (videoUrl request) (format request))
          (ffmpeg_command ''downloads/audio.mp3'') (files w))) = None) \<and>
     (spawn_error t (ytdlp_command (videoUrl request) (format request)) (files w) = None \<and>
      spawn_error t (ffmpeg_command ''downloads/audio.mp3'') (files w) = None \<and>
      yt_dlp_returncode (pipe_exit t (ytdlp_command (videoUrl request) (format request))
        (ffmpeg_command ''downloads/audio.mp3'') (files w)) = 0 \<and>
      ffmpeg_returncode (pipe_exit t (ytdlp_command (videoUrl request) (format request))
        (ffmpeg_command ''downloads/audio.mp3'') (files w)) = 0 \<and>
      exists_error t In_try ''downloads/audio.mp3''
        (pipe_files (pipe_exit t (ytdlp_command (videoUrl request) (format request))
          (ffmpeg_command ''downloads/audio.mp3'') (files w))) = None \<and>
      pipe_files (pipe_exit t (ytdlp_command (videoUrl request) (format request))
        (ffmpeg_command ''downloads/audio.mp3'') (files w)) ''downloads/audio.mp3'' \<noteq> None \<and>
      exists_error t In_finally ''downloads/audio.mp3''
        (pipe_files (pipe_exit t (ytdlp_command (videoUrl request) (format request))
          (ffmpeg_command ''downloads/audio.mp3'') (files w))) = None \<and>
      unlink_error t ''downloads/audio.mp3''
        (pipe_files (pipe_exit t (ytdlp_command (videoUrl request) (format request))
          (ffmpeg_command ''downloads/audio.mp3'') (files w))) = None \<longrightarrow>
        fst (youtube_to_mp3 t request w) =
          Inr (FileResponse ''downloads/audio.mp3'' ''audio/mpeg'' ''audio.mp3'')) \<and>
     (fst (youtube_to_video t request w) =
        Inr (FileResponse ''downloads/video.mp4'' ''video/mp4'' ''video.mp4'') \<longleftrightarrow>
      spawn_error t (video_command (videoUrl request) (format request) ''downloads/video.mp4'')
        (files w) = None \<and>
      decode_error (run_exit t
        (video_command (videoUrl request) (format request) ''downloads/video.mp4'') (files w))
        = None \<and>
      returncode (run_exit t
        (video_command (videoUrl request) (format request) ''downloads/video.mp4'') (files w)) = 0 \<and>
      exists_error t In_try ''downloads/video.mp4''
        (run_files (run_exit t
          (video_command (videoUrl request) (format request) ''downloads/video.mp4'') (files w)))
        = None \<and>
      run_files (run_exit t
        (video_command (videoUrl request) (format request) ''downloads/video.mp4'') (files w))
        ''downloads/video.mp4'' \<noteq> None \<and>
      exists_error t In_finally ''downloads/video.mp4''
        (run_files (run_exit t
          (video_command (videoUrl request) (format request) ''downloads/video.mp4'') (files w)))
        = None \<and>
      unlink_error t ''downloads/video.mp4''
        (run_files (run_exit t
          (video_command (videoUrl request) (format request) ''downloads/video.mp4'') (files w)))
        = None) \<and>
     (spawn_error t (ytdlp_command (videoUrl request) (format request)) (files w) = None \<and>
      spawn_error t (ffmpeg_command ''downloads/audio.mp3'') (files w) = None \<and>
      ffmpeg_returncode (pipe_exit t (ytdlp_command (videoUrl request) (format request))
        (ffmpeg_command ''downloads/audio.mp3'') (files w)) \<noteq> 0 \<and>
      decode_utf8 t (ffmpeg_stderr (pipe_exit t (ytdlp_command (videoUrl request) (format request))
        (ffmpeg_command ''downloads/audio.mp3'') (files w))) = Inr err \<and>
      exists_error t In_finally ''downloads/audio.mp3''
        (pipe_files (pipe_exit t (ytdlp_command (videoUrl request) (format request))
          (ffmpeg_command ''downloads/audio.mp3'') (files w))) = None \<and>
      (pipe_files (pipe_exit t (ytdlp_command (videoUrl request) (format request))
         (ffmpeg_command ''downloads/audio.mp3'') (files w)) ''downloads/audio.mp3'' = None \<or>
       unlink_error t ''downloads/audio.mp3''
         (pipe_files (pipe_exit t (ytdlp_command (videoUrl request) (format request))
           (ffmpeg_command ''downloads/audio.mp3'') (files w))) = None) \<longrightarrow>
        fst (youtube_to_mp3 t request w) =
          Inl (HTTPException 500 (''Error processing the request: '' @
            http_str t 500 (''Error processing video: '' @ ''FFmpeg error: '' @ err)))) \<and>
     (spawn_error t (video_command (videoUrl request) (format request) ''downloads/video.mp4'')
        (files w) = None \<and>
      decode_error (run_exit t
        (video_command (videoUrl request) (format request) ''downloads/video.mp4'') (files w))
        = None \<and>
      returncode (run_exit t
        (video_command (videoUrl request) (format request) ''downloads/video.mp4'') (files w)) \<noteq> 0 \<and>
      exists_error t In_finally ''downloads/video.mp4''
        (run_files (run_exit t
          (video_command (videoUrl request) (format request) ''downloads/video.mp4'') (files w)))
        = None \<and>
      (run_files (run_exit t
         (video_command (videoUrl request) (format request) ''downloads/video.mp4'') (files w))
         ''downloads/video.mp4'' = None \<or>
       unlink_error t ''downloads/video.mp4''
         (run_files (run_exit t
           (video_command (videoUrl request) (format request) ''downloads/video.mp4'') (files w)))
         = None) \<longrightarrow>
        fst (youtube_to_video t request w) =
          Inl (HTTPException 500 (''Error processing the request: '' @ ''yt-dlp error: '' @
            stderr (run_exit t
              (video_command (videoUrl request) (format request) ''downloads/video.mp4'')
              (files w)))))"
proof -
  let ?pa = "''downloads/audio.mp3''"
  let ?pv = "''downloads/video.mp4''"
  let ?yt = "ytdlp_command (videoUrl request) (format request)"
  let ?ff = "ffmpeg_command ?pa"
  let ?vc = "video_command (videoUrl request) (format request) ?pv"
  let ?r = "pipe_exit t ?yt ?ff (files w)"
  let ?rr = "run_exit t ?vc (files w)"
  let ?A = "FileResponse ?pa ''audio/mpeg'' ''audio.mp3''"
  let ?V = "FileResponse ?pv ''video/mp4'' ''video.mp4''"
  note mp3 = youtube_to_mp3_unfold [OF assms] handler_fst youtube_to_mp3_try_fst
    youtube_to_mp3_try_files download_media_fst download_media_files download_media_try_fst
    download_media_try_files
  note video = youtube_to_video_unfold [OF assms] handler_fst youtube_to_video_try_fst
    youtube_to_video_try_files
  have a: "fst (youtube_to_mp3 t request w) = Inr ?A \<longleftrightarrow>
      spawn_error t ?yt (files w) = None \<and> spawn_error t ?ff (files w) = None \<and>
      ffmpeg_returncode ?r = 0 \<and> exists_error t In_try ?pa (pipe_files ?r) = None \<and>
      pipe_files ?r ?pa \<noteq> None \<and> exists_error t In_finally ?pa (pipe_files ?r) = None \<and>
      unlink_error t ?pa (pipe_files ?r) = None"
  proof (cases "spawn_error t ?yt (files w)")
    case Some
    then show ?thesis by (simp add: mp3 split: option.splits)
  next
    case yt: None
    show ?thesis
    proof (cases "spawn_error t ?ff (files w)")
      case Some
      with yt show ?thesis by (simp add: mp3 split: option.splits)
    next
      case ff: None
      show ?thesis
      proof (cases "ffmpeg_returncode ?r = 0")
        case True
        with yt ff show ?thesis
          by (cases "unlink_error t ?pa (pipe_files ?r)";
              cases "exists_error t In_try ?pa (pipe_files ?r)";
              cases "exists_error t In_finally ?pa (pipe_files ?r)")
            (simp_all add: mp3)
      next
        case False
        with yt ff show ?thesis
          by (cases "decode_utf8 t (ffmpeg_stderr ?r)")
            (simp_all add: mp3 split: option.splits)
      qed
    qed
  qed
  have b: "fst (youtube_to_video t request w) = Inr ?V \<longleftrightarrow>
      spawn_error t ?vc (files w) = None \<and> decode_error ?rr = None \<and>
      returncode ?rr = 0 \<and> exists_error t In_try ?pv (run_files ?rr) = None \<and>
      run_files ?rr ?pv \<noteq> None \<and> exists_error t In_finally ?pv (run_files ?rr) = None \<and>
      unlink_error t ?pv (run_files ?rr) = None"
  proof (cases "spawn_error t ?vc (files w)")
    case Some
    then show ?thesis by (simp add: video split: option.splits)
  next
    case None
    then show ?thesis
      by (cases "unlink_error t ?pv (run_files ?rr)";
          cases "exists_error t In_try ?pv (run_files ?rr)";
          cases "exists_error t In_finally ?pv (run_files ?rr)";
          cases "decode_error ?rr")
        (simp_all add: video)
  qed
  have c: "spawn_error t ?yt (files w) = None \<and> spawn_error t ?ff (files w) = None \<and>
      ffmpeg_returncode ?r \<noteq> 0 \<and> decode_utf8 t (ffmpeg_stderr ?r) = Inr err \<and>
      exists_error t In_finally ?pa (pipe_files ?r) = None \<and>
      (pipe_files ?r ?pa = None \<or> unlink_error t ?pa (pipe_files ?r) = None) \<longrightarrow>
        fst (youtube_to_mp3 t request w) =
          Inl (HTTPException 500 (''Error processing the request: '' @
            http_str t 500 (''Error processing video: '' @ ''FFmpeg error: '' @ err)))"
    by (auto simp: mp3)
  have d: "spawn_error t ?vc (files w) = None \<and> decode_error ?rr = None \<and>
      returncode ?rr \<noteq> 0 \<and> exists_error t In_finally ?pv (run_files ?rr) = None \<and>
      (run_files ?rr ?pv = None \<or> unlink_error t ?pv (run_files ?rr) = None) \<longrightarrow>
        fst (youtube_to_video t request w) =
          Inl (HTTPException 500 (''Error processing the request: '' @ ''yt-dlp error: '' @
            stderr ?rr))"
    by (auto simp: video)
  from a have a1: "fst (youtube_to_mp3 t request w) = Inr ?A \<longrightarrow>
      spawn_error t ?yt (files w) = None \<and> spawn_error t ?ff (files w) = None \<and>
      ffmpeg_returncode ?r = 0 \<and> exists_error t In_try ?pa (pipe_files ?r) = None \<and>
      pipe_files ?r ?pa \<noteq> None \<and> exists_error t In_finally ?pa (pipe_files ?r) = None \<and>
      unlink_error t ?pa (pipe_files ?r) = None"
    by simp
  from a have a2: "spawn_error t ?yt (files w) = None \<and> spawn_error t ?ff (files w) = None \<and>
      yt_dlp_returncode ?r = 0 \<and>
      ffmpeg_returncode ?r = 0 \<and> exists_error t In_try ?pa (pipe_files ?r) = None \<and>
      pipe_files ?r ?pa \<noteq> None \<and> exists_error t In_finally ?pa (pipe_files ?r) = None \<and>
      unlink_error t ?pa (pipe_files ?r) = None \<longrightarrow>
        fst (youtube_to_mp3 t request w) = Inr ?A"
    by simp
  show ?thesis
    by (rule conjI [OF a1 conjI [OF a2 conjI [OF b conjI [OF c d]]]])
qed

theorem conversion_success_condition_witness:
  "ffmpeg_returncode (pipe_exit tools_ok (ytdlp_command (videoUrl req_a) (format req_a))
     (ffmpeg_command ''downloads/audio.mp3'') (files w0)) = 0 \<and>
   fst (youtube_to_mp3 tools_ok req_a w0) =
     Inr (FileResponse ''downloads/audio.mp3'' ''audio/mpeg'' ''audio.mp3'') \<and>
   fst (youtube_to_video tools_ok req_a w0) =
     Inr (FileResponse ''downloads/video.mp4'' ''video/mp4'' ''video.mp4'') \<and>
   fst (youtube_to_mp3 tools_failing req_a w0) =
     Inl (HTTPException 500 (''Error processing the request: '' @
       ''500: Error processing video: FFmpeg error: '' @
       ''pipe:0: Invalid data found when processing input'')) \<and>
   fst (youtube_to_video tools_failing req_a w0) =
     Inl (HTTPException 500
       (''Error processing the request: yt-dlp error: '' @ ''ERROR: Unsupported URL''))"
proof -
  have ne: "videoUrl req_a \<noteq> []"
    by (simp add: req_a_def)
  note ok = conversion_success_condition
      [where t = tools_ok and request = req_a and w = w0, OF ne]
  note bad = conversion_success_condition
      [where t = tools_failing and request = req_a and w = w0
        and err = "''pipe:0: Invalid data found when processing input''", OF ne]
  have r2: "fst (youtube_to_mp3 tools_ok req_a w0) =
      Inr (FileResponse ''downloads/audio.mp3'' ''audio/mpeg'' ''audio.mp3'')"
    using ok [THEN conjunct2, THEN conjunct1]
    by (simp add: tools_ok_def w0_def ffmpeg_command_def)
  have r1: "ffmpeg_returncode (pipe_exit tools_ok (ytdlp_command (videoUrl req_a) (format req_a))
      (ffmpeg_command ''downloads/audio.mp3'') (files w0)) = 0"
    using ok [THEN conjunct1, THEN mp, OF r2]
    by simp
  have r3: "fst (youtube_to_video tools_ok req_a w0) =
      Inr (FileResponse ''downloads/video.mp4'' ''video/mp4'' ''video.mp4'')"
    using ok [THEN conjunct2, THEN conjunct2, THEN conjunct1]
    by (simp add: tools_ok_def w0_def video_command_def)
  have r4: "fst (youtube_to_mp3 tools_failing req_a w0) =
      Inl (HTTPException 500 (''Error processing the request: '' @
        ''500: Error processing video: FFmpeg error: '' @
        ''pipe:0: Invalid data found when processing input''))"
    using bad [THEN conjunct2, THEN conjunct2, THEN conjunct2, THEN conjunct1]
    by (simp add: tools_failing_def tools_ok_def w0_def str_nat.simps digit_char_def)
  have r5: "fst (youtube_to_video tools_failing req_a w0) =
      Inl (HTTPException 500
        (''Error processing the request: yt-dlp error: '' @ ''ERROR: Unsupported URL''))"
    using bad [THEN conjunct2, THEN conjunct2, THEN conjunct2, THEN conjunct2]
    by (simp add: tools_failing_def tools_ok_def w0_def)
  from r1 r2 r3 r4 r5 show ?thesis
    by (intro conjI)
qed

text \<open>
  The video downloader exits with status 0 and the output file has size zero: the
  handler returns the file response.
\<close>

theorem conversion_success_counterexample:
  "returncode (run_exit tools_empty_file
     (video_command (videoUrl req_a) (format req_a) ''downloads/video.mp4'') (files w0)) = 0 \<and>
   run_files (run_exit tools_empty_file
     (video_command (videoUrl req_a) (format req_a) ''downloads/video.mp4'') (files w0))
     ''downloads/video.mp4'' = Some 0 \<and>
   fst (youtube_to_video tools_empty_file req_a w0) =
     Inr (FileResponse ''downloads/video.mp4'' ''video/mp4'' ''video.mp4'')"
  by (simp add: handler_defs example_defs)

section \<open>Cleanup of the output file\<close>

text \<open>
  Claim C3, as the code has it. For a request that passes validation, the \<^verbatim>\<open>finally\<close>
  clause runs on every path. It removes the output file at most once, and exactly when
  \<^verbatim>\<open>exists\<close> does not raise, the file exists at that point and \<^verbatim>\<open>unlink\<close> does not raise. If
  neither \<^verbatim>\<open>exists\<close> nor \<^verbatim>\<open>unlink\<close> raises in the \<^verbatim>\<open>finally\<close> clause, the output file does not
  exist when the handler is left.
\<close>

theorem cleanup_after_validation:
  assumes "videoUrl request \<noteq> []"
  shows
    "(unlinked (snd (youtube_to_mp3 t request w)) = unlinked w \<or>
      unlinked (snd (youtube_to_mp3 t request w)) = unlinked w @ [''downloads/audio.mp3'']) \<and>
     (unlinked (snd (youtube_to_mp3 t request w)) = unlinked w @ [''downloads/audio.mp3''] \<longleftrightarrow>
      exists_error t In_finally ''downloads/audio.mp3''
        (files (snd (youtube_to_mp3_try t (videoUrl request) (format request)
          ''downloads/audio.mp3'' w))) = None \<and>
      files (snd (youtube_to_mp3_try t (videoUrl request) (format request)
        ''downloads/audio.mp3'' w)) ''downloads/audio.mp3'' \<noteq> None \<and>
      unlink_error t ''downloads/audio.mp3''
        (files (snd (youtube_to_mp3_try t (videoUrl request) (format request)
          ''downloads/audio.mp3'' w))) = None) \<and>
     (exists_error t In_finally ''downloads/audio.mp3''
        (files (snd (youtube_to_mp3_try t (videoUrl request) (format request)
          ''downloads/audio.mp3'' w))) = None \<and>
      unlink_error t ''downloads/audio.mp3''
        (files (snd (youtube_to_mp3_try t (videoUrl request) (format request)
          ''downloads/audio.mp3'' w))) = None \<longrightarrow>
        files (snd (youtube_to_mp3 t request w)) ''downloads/audio.mp3'' = None) \<and>
     (unlinked (snd (youtube_to_video t request w)) = unlinked w \<or>
      unlinked (snd (youtube_to_video t request w)) = unlinked w @ [''downloads/video.mp4'']) \<and>
     (unlinked (snd (youtube_to_video t request w)) = unlinked w @ [''downloads/video.mp4''] \<longleftrightarrow>
      exists_error t In_finally ''downloads/video.mp4''
        (files (snd (youtube_to_video_try t (videoUrl request) (format request)
          ''downloads/video.mp4'' w))) = None \<and>
      files (snd (youtube_to_video_try t (videoUrl request) (format request)
        ''downloads/video.mp4'' w)) ''downloads/video.mp4'' \<noteq> None \<and>
      unlink_error t ''downloads/video.mp4''
        (files (snd (youtube_to_video_try t (videoUrl request) (format request)
          ''downloads/video.mp4'' w))) = None) \<and>
     (exists_error t In_finally ''downloads/video.mp4''
        (files (snd (youtube_to_video_try t (videoUrl request) (format request)
          ''downloads/video.mp4'' w))) = None \<and>
      unlink_error t ''downloads/video.mp4''
        (files (snd (youtube_to_video_try t (videoUrl request) (format request)
          ''downloads/video.mp4'' w))) = None \<longrightarrow>
        files (snd (youtube_to_video t request w)) ''downloads/video.mp4'' = None)"
proof -
  let ?pa = "''downloads/audio.mp3''"
  let ?pv = "''downloads/video.mp4''"
  let ?a = "youtube_to_mp3_try t (videoUrl request) (format request) ?pa w"
  let ?v = "youtube_to_video_try t (videoUrl request) (format request) ?pv w"
  have ua: "unlinked (snd (youtube_to_mp3 t request w)) =
      unlinked w @
        (if exists_error t In_finally ?pa (files (snd ?a)) = None \<and>
            files (snd ?a) ?pa \<noteq> None \<and> unlink_error t ?pa (files (snd ?a)) = None
         then [?pa] else [])"
    by (simp only: youtube_to_mp3_unfold [OF assms] handler_unlinked
        youtube_to_mp3_try_unlinked)
  have uv: "unlinked (snd (youtube_to_video t request w)) =
      unlinked w @
        (if exists_error t In_finally ?pv (files (snd ?v)) = None \<and>
            files (snd ?v) ?pv \<noteq> None \<and> unlink_error t ?pv (files (snd ?v)) = None
         then [?pv] else [])"
    by (simp only: youtube_to_video_unfold [OF assms] handler_unlinked
        youtube_to_video_try_unlinked)
  have fa: "files (snd (youtube_to_mp3 t request w)) ?pa =
      (if exists_error t In_finally ?pa (files (snd ?a)) = None \<and>
          unlink_error t ?pa (files (snd ?a)) = None
       then None else files (snd ?a) ?pa)"
    by (simp only: youtube_to_mp3_unfold [OF assms] handler_files)
  have fv: "files (snd (youtube_to_video t request w)) ?pv =
      (if exists_error t In_finally ?pv (files (snd ?v)) = None \<and>
          unlink_error t ?pv (files (snd ?v)) = None
       then None else files (snd ?v) ?pv)"
    by (simp only: youtube_to_video_unfold [OF assms] handler_files)
  have 1: "unlinked (snd (youtube_to_mp3 t request w)) = unlinked w \<or>
      unlinked (snd (youtube_to_mp3 t request w)) = unlinked w @ [?pa]"
    unfolding ua by simp
  have 2: "unlinked (snd (youtube_to_mp3 t request w)) = unlinked w @ [?pa] \<longleftrightarrow>
      exists_error t In_finally ?pa (files (snd ?a)) = None \<and>
      files (snd ?a) ?pa \<noteq> None \<and> unlink_error t ?pa (files (snd ?a)) = None"
    unfolding ua by simp
  have 3: "exists_error t In_finally ?pa (files (snd ?a)) = None \<and>
      unlink_error t ?pa (files (snd ?a)) = None \<longrightarrow>
      files (snd (youtube_to_mp3 t request w)) ?pa = None"
    unfolding fa by simp
  have 4: "unlinked (snd (youtube_to_video t request w)) = unlinked w \<or>
      unlinked (snd (youtube_to_video t request w)) = unlinked w @ [?pv]"
    unfolding uv by simp
  have 5: "unlinked (snd (youtube_to_video t request w)) = unlinked w @ [?pv] \<longleftrightarrow>
      exists_error t In_finally ?pv (files (snd ?v)) = None \<and>
      files (snd ?v) ?pv \<noteq> None \<and> unlink_error t ?pv (files (snd ?v)) = None"
    unfolding uv by simp
  have 6: "exists_error t In_finally ?pv (files (snd ?v)) = None \<and>
      unlink_error t ?pv (files (snd ?v)) = None \<longrightarrow>
      files (snd (youtube_to_video t request w)) ?pv = None"
    unfolding fv by simp
  show ?thesis
    by (rule conjI [OF 1 conjI [OF 2 conjI [OF 3 conjI [OF 4 conjI [OF 5 6]]]]])
qed

theorem cleanup_after_validation_witness:
  "files (snd (youtube_to_mp3 tools_ok req_a w0)) ''downloads/audio.mp3'' = None \<and>
   files (snd (youtube_to_video tools_ok req_a w0)) ''downloads/video.mp4'' = None \<and>
   unlinked (snd (youtube_to_mp3 tools_ok req_a w0)) = [''downloads/audio.mp3''] \<and>
   unlinked (snd (youtube_to_video tools_ok req_a w0)) = [''downloads/video.mp4'']"
proof -
  have ne: "videoUrl req_a \<noteq> []"
    by (simp add: req_a_def)
  note c = cleanup_after_validation [where t = tools_ok and request = req_a and w = w0, OF ne]
  have ea: "exists_error tools_ok In_finally ''downloads/audio.mp3''
        (files (snd (youtube_to_mp3_try tools_ok (videoUrl req_a) (format req_a)
          ''downloads/audio.mp3'' w0))) = None \<and>
      files (snd (youtube_to_mp3_try tools_ok (videoUrl req_a) (format req_a)
        ''downloads/audio.mp3'' w0)) ''downloads/audio.mp3'' \<noteq> None \<and>
      unlink_error tools_ok ''downloads/audio.mp3''
        (files (snd (youtube_to_mp3_try tools_ok (videoUrl req_a) (format req_a)
          ''downloads/audio.mp3'' w0))) = None"
    by (simp add: youtube_to_mp3_try_files download_media_files download_media_try_files
        tools_ok_def ffmpeg_command_def)
  have ev: "exists_error tools_ok In_finally ''downloads/video.mp4''
        (files (snd (youtube_to_video_try tools_ok (videoUrl req_a) (format req_a)
          ''downloads/video.mp4'' w0))) = None \<and>
      files (snd (youtube_to_video_try tools_ok (videoUrl req_a) (format req_a)
        ''downloads/video.mp4'' w0)) ''downloads/video.mp4'' \<noteq> None \<and>
      unlink_error tools_ok ''downloads/video.mp4''
        (files (snd (youtube_to_video_try tools_ok (videoUrl req_a) (format req_a)
          ''downloads/video.mp4'' w0))) = None"
    by (simp add: youtube_to_video_try_files tools_ok_def video_command_def)
  have u0: "unlinked w0 = []"
    by (simp add: w0_def)
  note a3 = c [THEN conjunct2, THEN conjunct2, THEN conjunct1, THEN mp,
      OF conjI [OF ea [THEN conjunct1] ea [THEN conjunct2, THEN conjunct2]]]
  note v3 = c [THEN conjunct2, THEN conjunct2, THEN conjunct2, THEN conjunct2,
      THEN conjunct2, THEN mp,
      OF conjI [OF ev [THEN conjunct1] ev [THEN conjunct2, THEN conjunct2]]]
  note a2 = c [THEN conjunct2, THEN conjunct1, THEN iffD2, OF ea]
  note v2 = c [THEN conjunct2, THEN conjunct2, THEN conjunct2, THEN conjunct2,
      THEN conjunct1, THEN iffD2, OF ev]
  from a3 v3 a2 v2 u0 show ?thesis
    by simp
qed

text \<open>
  The conversion succeeds and \<^verbatim>\<open>unlink\<close> is refused: the output file is still there
  when the handler is left and was removed zero times. The tools write no file: it was
  removed zero times.
\<close>

theorem cleanup_counterexample:
  "files (snd (youtube_to_mp3 (deny_unlink tools_ok) req_a w0)) ''downloads/audio.mp3'' =
     Some 4096 \<and>
   unlinked (snd (youtube_to_mp3 (deny_unlink tools_ok) req_a w0)) = [] \<and>
   unlinked (snd (youtube_to_mp3 tools_no_file req_a w0)) = []"
  by (simp add: handler_defs example_defs)

section \<open>A failure of the cleanup\<close>

text \<open>
  Claim C5, as the code has it. Nothing in the \<^verbatim>\<open>finally\<close> clause is guarded: when \<^verbatim>\<open>exists\<close>
  raises there, or the output file exists and \<^verbatim>\<open>unlink\<close> raises, that exception leaves the
  handler in place of the pending result, be it the file response or the HTTP 500 of
  the \<^verbatim>\<open>except\<close> clause. When \<^verbatim>\<open>exists\<close> does not raise and the file does not exist or
  \<^verbatim>\<open>unlink\<close> does not raise, the handler's result is the pending one.
\<close>

theorem cleanup_failure_propagates:
  assumes "videoUrl request \<noteq> []"
  shows
    "(exists_error t In_finally ''downloads/audio.mp3''
        (files (snd (youtube_to_mp3_try t (videoUrl request) (format request)
          ''downloads/audio.mp3'' w))) = Some msg \<longrightarrow>
        fst (youtube_to_mp3 t request w) = Inl (Exception msg)) \<and>
     (exists_error t In_finally ''downloads/audio.mp3''
        (files (snd (youtube_to_mp3_try t (videoUrl request) (format request)
          ''downloads/audio.mp3'' w))) = None \<and>
      files (snd (youtube_to_mp3_try t (videoUrl request) (format request)
          ''downloads/audio.mp3'' w)) ''downloads/audio.mp3'' \<noteq> None \<and>
      unlink_error t ''downloads/audio.mp3''
        (files (snd (youtube_to_mp3_try t (videoUrl request) (format request)
          ''downloads/audio.mp3'' w))) = Some msg \<longrightarrow>
        fst (youtube_to_mp3 t request w) = Inl (Exception msg)) \<and>
     (exists_error t In_finally ''downloads/audio.mp3''
        (files (snd (youtube_to_mp3_try t (videoUrl request) (format request)
          ''downloads/audio.mp3'' w))) = None \<and>
      (files (snd (youtube_to_mp3_try t (videoUrl request) (format request)
          ''downloads/audio.mp3'' w)) ''downloads/audio.mp3'' = None \<or>
       unlink_error t ''downloads/audio.mp3''
         (files (snd (youtube_to_mp3_try t (videoUrl request) (format request)
          ''downloads/audio.mp3'' w))) = None) \<longrightarrow>
        fst (youtube_to_mp3 t request w) =
          fst (except_Exception t (youtube_to_mp3_try t (videoUrl request) (format request)
          ''downloads/audio.mp3'' w))) \<and>
     (exists_error t In_finally ''downloads/video.mp4''
        (files (snd (youtube_to_video_try t (videoUrl request) (format request)
          ''downloads/video.mp4'' w))) = Some msg \<longrightarrow>
        fst (youtube_to_video t request w) = Inl (Exception msg)) \<and>
     (exists_error t In_finally ''downloads/video.mp4''
        (files (snd (youtube_to_video_try t (videoUrl request) (format request)
          ''downloads/video.mp4'' w))) = None \<and>
      files (snd (youtube_to_video_try t (videoUrl request) (format request)
          ''downloads/video.mp4'' w)) ''downloads/video.mp4'' \<noteq> None \<and>
      unlink_error t ''downloads/video.mp4''
        (files (snd (youtube_to_video_try t (videoUrl request) (format request)
          ''downloads/video.mp4'' w))) = Some msg \<longrightarrow>
        fst (youtube_to_video t request w) = Inl (Exception msg)) \<and>
     (exists_error t In_finally ''downloads/video.mp4''
        (files (snd (youtube_to_video_try t (videoUrl request) (format request)
          ''downloads/video.mp4'' w))) = None \<and>
      (files (snd (youtube_to_video_try t (videoUrl request) (format request)
          ''downloads/video.mp4'' w)) ''downloads/video.mp4'' = None \<or>
       unlink_error t ''downloads/video.mp4''
         (files (snd (youtube_to_video_try t (videoUrl request) (format request)
          ''downloads/video.mp4'' w))) = None) \<longrightarrow>
        fst (youtube_to_video t request w) =
          fst (except_Exception t (youtube_to_video_try t (videoUrl request) (format request)
          ''downloads/video.mp4'' w)))"
proof -
  let ?pa = "''downloads/audio.mp3''"
  let ?pv = "''downloads/video.mp4''"
  let ?a = "youtube_to_mp3_try t (videoUrl request) (format request) ?pa w"
  let ?v = "youtube_to_video_try t (videoUrl request) (format request) ?pv w"
  note ma = youtube_to_mp3_unfold [OF assms] handler_fst except_Exception_fst
  note mv = youtube_to_video_unfold [OF assms] handler_fst except_Exception_fst
  have 1: "exists_error t In_finally ?pa (files (snd ?a)) = Some msg \<longrightarrow>
      fst (youtube_to_mp3 t request w) = Inl (Exception msg)"
    by (simp add: ma)
  have 2: "exists_error t In_finally ?pa (files (snd ?a)) = None \<and>
      files (snd ?a) ?pa \<noteq> None \<and> unlink_error t ?pa (files (snd ?a)) = Some msg \<longrightarrow>
      fst (youtube_to_mp3 t request w) = Inl (Exception msg)"
    by (simp add: ma)
  have 3: "exists_error t In_finally ?pa (files (snd ?a)) = None \<and>
      (files (snd ?a) ?pa = None \<or> unlink_error t ?pa (files (snd ?a)) = None) \<longrightarrow>
      fst (youtube_to_mp3 t request w) = fst (except_Exception t ?a)"
    by (auto simp: ma)
  have 4: "exists_error t In_finally ?pv (files (snd ?v)) = Some msg \<longrightarrow>
      fst (youtube_to_video t request w) = Inl (Exception msg)"
    by (simp add: mv)
  have 5: "exists_error t In_finally ?pv (files (snd ?v)) = None \<and>
      files (snd ?v) ?pv \<noteq> None \<and> unlink_error t ?pv (files (snd ?v)) = Some msg \<longrightarrow>
      fst (youtube_to_video t request w) = Inl (Exception msg)"
    by (simp add: mv)
  have 6: "exists_error t In_finally ?pv (files (snd ?v)) = None \<and>
      (files (snd ?v) ?pv = None \<or> unlink_error t ?pv (files (snd ?v)) = None) \<longrightarrow>
      fst (youtube_to_video t request w) = fst (except_Exception t ?v)"
    by (auto simp: mv)
  show ?thesis
    by (rule conjI [OF 1 conjI [OF 2 conjI [OF 3 conjI [OF 4 conjI [OF 5 6]]]]])
qed

theorem cleanup_failure_propagates_witness:
  "fst (youtube_to_mp3 (deny_stat tools_failing) req_a w0) =
     Inl (Exception (''[Errno 13] Permission denied: '' @ repr_str ''downloads/audio.mp3'')) \<and>
   fst (youtube_to_mp3 (deny_unlink tools_ok) req_a w0) =
     Inl (Exception (''[Errno 13] Permission denied: '' @ repr_str ''downloads/audio.mp3'')) \<and>
   fst (youtube_to_mp3 tools_no_file req_a w0) =
     fst (except_Exception tools_no_file
       (youtube_to_mp3_try tools_no_file (videoUrl req_a) (format req_a)
        ''downloads/audio.mp3'' w0)) \<and>
   fst (youtube_to_video (deny_stat tools_failing) req_a w0) =
     Inl (Exception (''[Errno 13] Permission denied: '' @ repr_str ''downloads/video.mp4'')) \<and>
   fst (youtube_to_video (deny_unlink tools_failing) req_a w0) =
     Inl (Exception (''[Errno 13] Permission denied: '' @ repr_str ''downloads/video.mp4'')) \<and>
   fst (youtube_to_video tools_ok req_a w0) =
     fst (except_Exception tools_ok
       (youtube_to_video_try tools_ok (videoUrl req_a) (format req_a)
        ''downloads/video.mp4'' w0))"
proof -
  have ne: "videoUrl req_a \<noteq> []"
    by (simp add: req_a_def)
  note files_defs = youtube_to_mp3_try_files download_media_files download_media_try_files
    youtube_to_video_try_files example_defs ffmpeg_command_def video_command_def
  have h1: "exists_error (deny_stat tools_failing) In_finally ''downloads/audio.mp3''
      (files (snd (youtube_to_mp3_try (deny_stat tools_failing) (videoUrl req_a) (format req_a)
        ''downloads/audio.mp3'' w0))) = Some (''[Errno 13] Permission denied: '' @ repr_str ''downloads/audio.mp3'')"
    by (simp add: files_defs)
  have h2: "exists_error (deny_unlink tools_ok) In_finally ''downloads/audio.mp3''
      (files (snd (youtube_to_mp3_try (deny_unlink tools_ok) (videoUrl req_a) (format req_a)
        ''downloads/audio.mp3'' w0))) = None \<and>
    files (snd (youtube_to_mp3_try (deny_unlink tools_ok) (videoUrl req_a) (format req_a)
        ''downloads/audio.mp3'' w0)) ''downloads/audio.mp3'' \<noteq> None \<and>
    unlink_error (deny_unlink tools_ok) ''downloads/audio.mp3''
      (files (snd (youtube_to_mp3_try (deny_unlink tools_ok) (videoUrl req_a) (format req_a)
        ''downloads/audio.mp3'' w0))) = Some (''[Errno 13] Permission denied: '' @ repr_str ''downloads/audio.mp3'')"
    by (simp add: files_defs)
  have h3: "exists_error tools_no_file In_finally ''downloads/audio.mp3''
      (files (snd (youtube_to_mp3_try tools_no_file (videoUrl req_a) (format req_a)
        ''downloads/audio.mp3'' w0))) = None \<and>
    (files (snd (youtube_to_mp3_try tools_no_file (videoUrl req_a) (format req_a)
        ''downloads/audio.mp3'' w0)) ''downloads/audio.mp3'' = None \<or>
     unlink_error tools_no_file ''downloads/audio.mp3''
       (files (snd (youtube_to_mp3_try tools_no_file (videoUrl req_a) (format req_a)
        ''downloads/audio.mp3'' w0))) = None)"
    by (simp add: files_defs)
  have h4: "exists_error (deny_stat tools_failing) In_finally ''downloads/video.mp4''
      (files (snd (youtube_to_video_try (deny_stat tools_failing) (videoUrl req_a) (format req_a)
        ''downloads/video.mp4'' w0))) = Some (''[Errno 13] Permission denied: '' @ repr_str ''downloads/video.mp4'')"
    by (simp add: files_defs)
  have h5: "exists_error (deny_unlink tools_failing) In_finally ''downloads/video.mp4''
      (files (snd (youtube_to_video_try (deny_unlink tools_failing) (videoUrl req_a) (format req_a)
        ''downloads/video.mp4'' w0))) = None \<and>
    files (snd (youtube_to_video_try (deny_unlink tools_failing) (videoUrl req_a) (format req_a)
        ''downloads/video.mp4'' w0)) ''downloads/video.mp4'' \<noteq> None \<and>
    unlink_error (deny_unlink tools_failing) ''downloads/video.mp4''
      (files (snd (youtube_to_video_try (deny_unlink tools_failing) (videoUrl req_a) (format req_a)
        ''downloads/video.mp4'' w0))) = Some (''[Errno 13] Permission denied: '' @ repr_str ''downloads/video.mp4'')"
    by (simp add: files_defs)
  have h6: "exists_error tools_ok In_finally ''downloads/video.mp4''
      (files (snd (youtube_to_video_try tools_ok (videoUrl req_a) (format req_a)
        ''downloads/video.mp4'' w0))) = None \<and>
    (files (snd (youtube_to_video_try tools_ok (videoUrl req_a) (format req_a)
        ''downloads/video.mp4'' w0)) ''downloads/video.mp4'' = None \<or>
     unlink_error tools_ok ''downloads/video.mp4''
       (files (snd (youtube_to_video_try tools_ok (videoUrl req_a) (format req_a)
        ''downloads/video.mp4'' w0))) = None)"
    by (simp add: files_defs)
  note r1 = cleanup_failure_propagates [OF ne, THEN conjunct1,
      THEN mp, OF h1]
  note r2 = cleanup_failure_propagates [OF ne, THEN conjunct2, THEN conjunct1,
      THEN mp, OF h2]
  note r3 = cleanup_failure_propagates [OF ne, THEN conjunct2, THEN conjunct2, THEN conjunct1,
      THEN mp, OF h3]
  note r4 = cleanup_failure_propagates [OF ne, THEN conjunct2, THEN conjunct2, THEN conjunct2, THEN conjunct1,
      THEN mp, OF h4]
  note r5 = cleanup_failure_propagates [OF ne, THEN conjunct2, THEN conjunct2, THEN conjunct2, THEN conjunct2, THEN conjunct1,
      THEN mp, OF h5]
  note r6 = cleanup_failure_propagates [OF ne, THEN conjunct2, THEN conjunct2, THEN conjunct2, THEN conjunct2, THEN conjunct2,
      THEN mp, OF h6]
  show ?thesis
    by (rule conjI [OF r1 conjI [OF r2 conjI [OF r3 conjI [OF r4 conjI [OF r5 r6]]]]])
qed

text \<open>
  The conversion has succeeded, the pending result is the file response, and \<^verbatim>\<open>unlink\<close> is
  refused: the handler raises the error of \<^verbatim>\<open>unlink\<close>. The transcoder has failed, the
  pending result is the HTTP 500, and \<^verbatim>\<open>exists\<close> raises in the \<^verbatim>\<open>finally\<close> clause: the handler
  raises the error of \<^verbatim>\<open>exists\<close>.
\<close>

theorem cleanup_failure_counterexample:
  "fst (except_Exception (deny_unlink tools_ok)
     (youtube_to_mp3_try (deny_unlink tools_ok) (videoUrl req_a) (format req_a)
       ''downloads/audio.mp3'' w0)) =
     Inr (FileResponse ''downloads/audio.mp3'' ''audio/mpeg'' ''audio.mp3'') \<and>
   fst (youtube_to_mp3 (deny_unlink tools_ok) req_a w0) =
     Inl (Exception (''[Errno 13] Permission denied: '' @ repr_str ''downloads/audio.mp3'')) \<and>
   fst (except_Exception (deny_stat tools_failing)
     (youtube_to_mp3_try (deny_stat tools_failing) (videoUrl req_a) (format req_a)
       ''downloads/audio.mp3'' w0)) =
     Inl (HTTPException 500 (''Error processing the request: '' @
       ''500: Error processing video: FFmpeg error: '' @
       ''pipe:0: Invalid data found when processing input'')) \<and>
   fst (youtube_to_mp3 (deny_stat tools_failing) req_a w0) =
     Inl (Exception (''[Errno 13] Permission denied: '' @ repr_str ''downloads/audio.mp3''))"
  by (simp add: handler_defs example_defs str_nat.simps digit_char_def)

section \<open>Failures after validation\<close>

text \<open>
  Claim C9, as the code has it. An exception raised inside the \<^verbatim>\<open>try\<close> block of a
  conversion handler, the \<^verbatim>\<open>HTTPException\<close> for a file that was not created included, is
  caught and raised again as \<^verbatim>\<open>HTTPException\<close> with status 500 and the detail
  \<^verbatim>\<open>"Error processing the request: "\<close> followed by \<^verbatim>\<open>str(e)\<close>; this is what leaves the
  handler unless \<^verbatim>\<open>exists\<close> or \<^verbatim>\<open>unlink\<close> raises in the \<^verbatim>\<open>finally\<close> clause. Every exception
  that leaves a handler after validation is either such an \<^verbatim>\<open>HTTPException\<close> or the
  exception of \<^verbatim>\<open>exists\<close> or \<^verbatim>\<open>unlink\<close> in the \<^verbatim>\<open>finally\<close> clause.
\<close>

theorem try_failures_wrapped:
  assumes "videoUrl request \<noteq> []"
  shows
    "(fst (youtube_to_mp3_try t (videoUrl request) (format request)
        ''downloads/audio.mp3'' w) = Inl e0 \<and>
      exists_error t In_finally ''downloads/audio.mp3''
        (files (snd (youtube_to_mp3_try t (videoUrl request) (format request)
          ''downloads/audio.mp3'' w))) = None \<and>
      (files (snd (youtube_to_mp3_try t (videoUrl request) (format request)
         ''downloads/audio.mp3'' w)) ''downloads/audio.mp3'' = None \<or>
       unlink_error t ''downloads/audio.mp3''
         (files (snd (youtube_to_mp3_try t (videoUrl request) (format request)
           ''downloads/audio.mp3'' w))) = None) \<longrightarrow>
        fst (youtube_to_mp3 t request w) =
          Inl (HTTPException 500 (''Error processing the request: '' @ str_exn t e0))) \<and>
     (spawn_error t (ytdlp_command (videoUrl request) (format request)) (files w) = None \<and>
      spawn_error t (ffmpeg_command ''downloads/audio.mp3'') (files w) = None \<and>
      ffmpeg_returncode (pipe_exit t (ytdlp_command (videoUrl request) (format request))
        (ffmpeg_command ''downloads/audio.mp3'') (files w)) = 0 \<and>
      exists_error t In_try ''downloads/audio.mp3''
        (pipe_files (pipe_exit t (ytdlp_command (videoUrl request) (format request))
          (ffmpeg_command ''downloads/audio.mp3'') (files w))) = None \<and>
      pipe_files (pipe_exit t (ytdlp_command (videoUrl request) (format request))
        (ffmpeg_command ''downloads/audio.mp3'') (files w)) ''downloads/audio.mp3'' = None \<and>
      exists_error t In_finally ''downloads/audio.mp3''
        (pipe_files (pipe_exit t (ytdlp_command (videoUrl request) (format request))
          (ffmpeg_command ''downloads/audio.mp3'') (files w))) = None \<longrightarrow>
        fst (youtube_to_mp3 t request w) =
          Inl (HTTPException 500 (''Error processing the request: '' @
            http_str t 500 ''Audio conversion failed, file not created.''))) \<and>
     (fst (youtube_to_mp3 t request w) = Inl e1 \<longrightarrow>
        (\<exists>m. e1 = HTTPException 500 (''Error processing the request: '' @ m)) \<or>
        (\<exists>m fs. e1 = Exception m \<and>
           exists_error t In_finally ''downloads/audio.mp3'' fs = Some m) \<or>
        (\<exists>m fs. e1 = Exception m \<and> unlink_error t ''downloads/audio.mp3'' fs = Some m)) \<and>
     (fst (youtube_to_video_try t (videoUrl request) (format request)
        ''downloads/video.mp4'' w) = Inl e0 \<and>
      exists_error t In_finally ''downloads/video.mp4''
        (files (snd (youtube_to_video_try t (videoUrl request) (format request)
          ''downloads/video.mp4'' w))) = None \<and>
      (files (snd (youtube_to_video_try t (videoUrl request) (format request)
         ''downloads/video.mp4'' w)) ''downloads/video.mp4'' = None \<or>
       unlink_error t ''downloads/video.mp4''
         (files (snd (youtube_to_video_try t (videoUrl request) (format request)
           ''downloads/video.mp4'' w))) = None) \<longrightarrow>
        fst (youtube_to_video t request w) =
          Inl (HTTPException 500 (''Error processing the request: '' @ str_exn t e0))) \<and>
     (spawn_error t (video_command (videoUrl request) (format request) ''downloads/video.mp4'')
        (files w) = None \<and>
      decode_error (run_exit t
        (video_command (videoUrl request) (format request) ''downloads/video.mp4'') (files w))
        = None \<and>
      returncode (run_exit t
        (video_command (videoUrl request) (format request) ''downloads/video.mp4'') (files w)) = 0 \<and>
      exists_error t In_try ''downloads/video.mp4''
        (run_files (run_exit t
          (video_command (videoUrl request) (format request) ''downloads/video.mp4'') (files w)))
        = None \<and>
      run_files (run_exit t
        (video_command (videoUrl request) (format request) ''downloads/video.mp4'') (files w))
        ''downloads/video.mp4'' = None \<and>
      exists_error t In_finally ''downloads/video.mp4''
        (run_files (run_exit t
          (video_command (videoUrl request) (format request) ''downloads/video.mp4'') (files w)))
        = None \<longrightarrow>
        fst (youtube_to_video t request w) =
          Inl (HTTPException 500 (''Error processing the request: '' @
            http_str t 500 ''Video download failed, file not created.''))) \<and>
     (fst (youtube_to_video t request w) = Inl e1 \<longrightarrow>
        (\<exists>m. e1 = HTTPException 500 (''Error processing the request: '' @ m)) \<or>
        (\<exists>m fs. e1 = Exception m \<and>
           exists_error t In_finally ''downloads/video.mp4'' fs = Some m) \<or>
        (\<exists>m fs. e1 = Exception m \<and> unlink_error t ''downloads/video.mp4'' fs = Some m))"
proof -
  let ?pa = "''downloads/audio.mp3''"
  let ?pv = "''downloads/video.mp4''"
  let ?yt = "ytdlp_command (videoUrl request) (format request)"
  let ?ff = "ffmpeg_command ?pa"
  let ?vc = "video_command (videoUrl request) (format request) ?pv"
  let ?r = "pipe_exit t ?yt ?ff (files w)"
  let ?rr = "run_exit t ?vc (files w)"
  let ?a = "youtube_to_mp3_try t (videoUrl request) (format request) ?pa w"
  let ?v = "youtube_to_video_try t (videoUrl request) (format request) ?pv w"
  note mp3 = youtube_to_mp3_unfold [OF assms] handler_fst
  note video = youtube_to_video_unfold [OF assms] handler_fst
  have 1: "fst ?a = Inl e0 \<and> exists_error t In_finally ?pa (files (snd ?a)) = None \<and>
      (files (snd ?a) ?pa = None \<or> unlink_error t ?pa (files (snd ?a)) = None) \<longrightarrow>
        fst (youtube_to_mp3 t request w) =
          Inl (HTTPException 500 (''Error processing the request: '' @ str_exn t e0))"
    by (auto simp: mp3)
  have 2: "spawn_error t ?yt (files w) = None \<and> spawn_error t ?ff (files w) = None \<and>
      ffmpeg_returncode ?r = 0 \<and> exists_error t In_try ?pa (pipe_files ?r) = None \<and>
      pipe_files ?r ?pa = None \<and> exists_error t In_finally ?pa (pipe_files ?r) = None \<longrightarrow>
        fst (youtube_to_mp3 t request w) =
          Inl (HTTPException 500 (''Error processing the request: '' @
            http_str t 500 ''Audio conversion failed, file not created.''))"
    by (simp add: mp3 youtube_to_mp3_try_fst youtube_to_mp3_try_files download_media_fst
        download_media_files download_media_try_fst download_media_try_files)
  have 3: "fst (youtube_to_mp3 t request w) = Inl e1 \<longrightarrow>
        (\<exists>m. e1 = HTTPException 500 (''Error processing the request: '' @ m)) \<or>
        (\<exists>m fs. e1 = Exception m \<and> exists_error t In_finally ?pa fs = Some m) \<or>
        (\<exists>m fs. e1 = Exception m \<and> unlink_error t ?pa fs = Some m)"
    by (cases "fst ?a") (auto simp: mp3 split: option.splits if_splits)
  have 4: "fst ?v = Inl e0 \<and> exists_error t In_finally ?pv (files (snd ?v)) = None \<and>
      (files (snd ?v) ?pv = None \<or> unlink_error t ?pv (files (snd ?v)) = None) \<longrightarrow>
        fst (youtube_to_video t request w) =
          Inl (HTTPException 500 (''Error processing the request: '' @ str_exn t e0))"
    by (auto simp: video)
  have 5: "spawn_error t ?vc (files w) = None \<and> decode_error ?rr = None \<and>
      returncode ?rr = 0 \<and> exists_error t In_try ?pv (run_files ?rr) = None \<and>
      run_files ?rr ?pv = None \<and> exists_error t In_finally ?pv (run_files ?rr) = None \<longrightarrow>
        fst (youtube_to_video t request w) =
          Inl (HTTPException 500 (''Error processing the request: '' @
            http_str t 500 ''Video download failed, file not created.''))"
    by (simp add: video youtube_to_video_try_fst youtube_to_video_try_files)
  have 6: "fst (youtube_to_video t request w) = Inl e1 \<longrightarrow>
        (\<exists>m. e1 = HTTPException 500 (''Error processing the request: '' @ m)) \<or>
        (\<exists>m fs. e1 = Exception m \<and> exists_error t In_finally ?pv fs = Some m) \<or>
        (\<exists>m fs. e1 = Exception m \<and> unlink_error t ?pv fs = Some m)"
    by (cases "fst ?v") (auto simp: video split: option.splits if_splits)
  show ?thesis
    by (rule conjI [OF 1 conjI [OF 2 conjI [OF 3 conjI [OF 4 conjI [OF 5 6]]]]])
qed

theorem try_failures_wrapped_witness:
  "fst (youtube_to_mp3 tools_failing req_a w0) =
     Inl (HTTPException 500 (''Error processing the request: '' @
       ''500: Error processing video: FFmpeg error: '' @
       ''pipe:0: Invalid data found when processing input'')) \<and>
   fst (youtube_to_mp3 tools_no_file req_a w0) =
     Inl (HTTPException 500 (''Error processing the request: '' @
       ''500: Audio conversion failed, file not created.'')) \<and>
   fst (youtube_to_video tools_failing req_a w0) =
     Inl (HTTPException 500
       (''Error processing the request: '' @ ''yt-dlp error: ERROR: Unsupported URL'')) \<and>
   fst (youtube_to_video tools_no_file req_a w0) =
     Inl (HTTPException 500 (''Error processing the request: '' @
       ''500: Video download failed, file not created.'')) \<and>
   ((\<exists>m. HTTPException 500 (''Error processing the request: '' @
       ''500: Audio conversion failed, file not created.'') =
         HTTPException 500 (''Error processing the request: '' @ m)) \<or>
    (\<exists>m fs. HTTPException 500 (''Error processing the request: '' @
       ''500: Audio conversion failed, file not created.'') = Exception m \<and>
       exists_error tools_no_file In_finally ''downloads/audio.mp3'' fs = Some m) \<or>
    (\<exists>m fs. HTTPException 500 (''Error processing the request: '' @
       ''500: Audio conversion failed, file not created.'') = Exception m \<and>
       unlink_error tools_no_file ''downloads/audio.mp3'' fs = Some m)) \<and>
   ((\<exists>m. HTTPException 500 (''Error processing the request: '' @
       ''500: Video download failed, file not created.'') =
         HTTPException 500 (''Error processing the request: '' @ m)) \<or>
    (\<exists>m fs. HTTPException 500 (''Error processing the request: '' @
       ''500: Video download failed, file not created.'') = Exception m \<and>
       exists_error tools_no_file In_finally ''downloads/video.mp4'' fs = Some m) \<or>
    (\<exists>m fs. HTTPException 500 (''Error processing the request: '' @
       ''500: Video download failed, file not created.'') = Exception m \<and>
       unlink_error tools_no_file ''downloads/video.mp4'' fs = Some m))"
proof -
  have ne: "videoUrl req_a \<noteq> []"
    by (simp add: req_a_def)
  note try_defs = youtube_to_mp3_try_fst youtube_to_mp3_try_files download_media_fst
    download_media_files download_media_try_fst download_media_try_files
    youtube_to_video_try_fst youtube_to_video_try_files
    tools_failing_def tools_no_file_def tools_ok_def w0_def ffmpeg_command_def
    video_command_def str_nat.simps digit_char_def
  note bad = try_failures_wrapped [where t = tools_failing and request = req_a and w = w0, OF ne]
  note none = try_failures_wrapped [where t = tools_no_file and request = req_a and w = w0, OF ne]
  have r1: "fst (youtube_to_mp3 tools_failing req_a w0) =
      Inl (HTTPException 500 (''Error processing the request: '' @
        ''500: Error processing video: FFmpeg error: '' @
        ''pipe:0: Invalid data found when processing input''))"
    using bad [where ?e0.0 = "HTTPException 500 (''Error processing video: FFmpeg error: '' @
        ''pipe:0: Invalid data found when processing input'')", THEN conjunct1]
    by (simp add: try_defs)
  have r2: "fst (youtube_to_mp3 tools_no_file req_a w0) =
      Inl (HTTPException 500 (''Error processing the request: '' @
        ''500: Audio conversion failed, file not created.''))"
    using none [THEN conjunct2, THEN conjunct1]
    by (simp add: try_defs)
  have r3: "fst (youtube_to_video tools_failing req_a w0) =
      Inl (HTTPException 500
        (''Error processing the request: '' @ ''yt-dlp error: ERROR: Unsupported URL''))"
    using bad [where ?e0.0 = "Exception ''yt-dlp error: ERROR: Unsupported URL''",
        THEN conjunct2, THEN conjunct2, THEN conjunct2, THEN conjunct1]
    by (simp add: try_defs)
  have r4: "fst (youtube_to_video tools_no_file req_a w0) =
      Inl (HTTPException 500 (''Error processing the request: '' @
        ''500: Video download failed, file not created.''))"
    using none [THEN conjunct2, THEN conjunct2, THEN conjunct2, THEN conjunct2, THEN conjunct1]
    by (simp add: try_defs)
  note r5 = none [THEN conjunct2, THEN conjunct2, THEN conjunct1, THEN mp, OF r2]
  note r6 = none [THEN conjunct2, THEN conjunct2, THEN conjunct2, THEN conjunct2,
      THEN conjunct2, THEN mp, OF r4]
  show ?thesis
    by (rule conjI [OF r1 conjI [OF r2 conjI [OF r3 conjI [OF r4 conjI [OF r5 r6]]]]])
qed

text \<open>
  The downloader of the video endpoint fails inside the \<^verbatim>\<open>try\<close> block, leaving a partial
  file, and \<^verbatim>\<open>unlink\<close> is refused: what leaves the handler is the error of \<^verbatim>\<open>unlink\<close>,
  not an \<^verbatim>\<open>HTTPException\<close> with the prefix.
\<close>

theorem try_failures_counterexample:
  "fst (youtube_to_video_try (deny_unlink tools_failing) (videoUrl req_a) (format req_a)
     ''downloads/video.mp4'' w0) = Inl (Exception ''yt-dlp error: ERROR: Unsupported URL'') \<and>
   fst (youtube_to_video (deny_unlink tools_failing) req_a w0) =
     Inl (Exception (''[Errno 13] Permission denied: '' @ repr_str ''downloads/video.mp4''))"
  by (simp add: handler_defs example_defs)

end
